theory Spec2Isabelle
  imports Main "HOL-Library.Multiset"
begin

section \<open>Data model of \<^verbatim>\<open>server.py\<close>\<close>

text \<open>
  A Python \<^verbatim>\<open>str\<close> is a sequence of Unicode code points and \<^verbatim>\<open>len\<close> counts them, so
  a string is modelled as the list of its code points. \<open>lit\<close> embeds an ASCII literal;
  the emoji of the canned messages are written as their code points.
\<close>

type_synonym pystr = "nat list"

definition lit :: "string \<Rightarrow> pystr" where
  "lit s = map of_char s"

text \<open>A \<^verbatim>\<open>datetime\<close> is a point on the clock. Every \<^verbatim>\<open>datetime.utcnow()\<close> the source
  reads is an argument of the handler that reads it.\<close>

type_synonym datetime = nat

record OnboardingSession =
  id :: pystr
  customer_phone :: "pystr option"
  customer_email :: "pystr option"
  current_step :: pystr
  progress_percentage :: int
  created_at :: datetime
  updated_at :: datetime
  status :: pystr

record ChatMessage =
  session_id :: pystr
  message :: pystr
  sender :: pystr
  timestamp :: datetime

record VerificationRequest =
  session_id :: pystr
  phone :: "pystr option"
  email :: "pystr option"
  otp :: "pystr option"
  verification_type :: "pystr option"

record KYCDocumentRequest =
  session_id :: pystr
  document_type :: pystr
  pan_number :: "pystr option"
  aadhaar_number :: "pystr option"
  document_data :: "pystr option"
  document_file :: "pystr option"

record BiometricRequest =
  session_id :: pystr
  face_image :: pystr

record AdditionalInfoRequest =
  session_id :: pystr
  full_name :: pystr
  date_of_birth :: pystr
  address :: pystr
  occupation :: pystr
  income_range :: pystr

record ESignRequest =
  session_id :: pystr
  signature_data :: pystr

text \<open>
  The two collections of the document store, in insertion order. MongoDB gives every
  inserted document an \<^verbatim>\<open>_id\<close>, an \<^verbatim>\<open>ObjectId\<close> that no other document of the collection has.
  The collections are only appended to, so the position of a document in its collection
  serves as its \<^verbatim>\<open>_id\<close>. \<^verbatim>\<open>get_session\<close> deletes the \<^verbatim>\<open>_id\<close> from the session it returns and
  \<^verbatim>\<open>chat\<close> reads the step only, so a session is kept without it; \<^verbatim>\<open>get_chat_history\<close> returns
  the stored messages as they are, each with its \<^verbatim>\<open>_id\<close> (the field \<open>object_id\<close>).
\<close>

type_synonym ObjectId = nat

record ChatDocument = ChatMessage +
  object_id :: ObjectId

record database =
  onboarding_sessions :: "OnboardingSession list"
  chat_messages :: "ChatMessage list"

definition empty_db :: database where
  "empty_db = \<lparr>onboarding_sessions = [], chat_messages = []\<rparr>"

text \<open>\<^verbatim>\<open>HTTPException(status_code, detail)\<close>.\<close>

datatype error = HTTPException nat pystr

text \<open>The JSON body \<^verbatim>\<open>{"success": .., "message": .., "otp": ..}\<close> of the transition endpoints;
  \<open>otp = None\<close> when the key is absent.\<close>

record Reply =
  success :: bool
  message :: pystr
  otp :: "pystr option"

text \<open>The body \<^verbatim>\<open>{"session_id": .., "message": ..}\<close> of \<^verbatim>\<open>start_onboarding\<close>.\<close>

record StartReply =
  session_id :: pystr
  message :: pystr

section \<open>The collaborators: document store, random source, string methods\<close>

definition insert_one :: "'a \<Rightarrow> 'a list \<Rightarrow> 'a list" where
  "insert_one doc coll = coll @ [doc]"

fun find_one :: "('a \<Rightarrow> bool) \<Rightarrow> 'a list \<Rightarrow> 'a option" where
  "find_one p [] = None"
| "find_one p (x # xs) = (if p x then Some x else find_one p xs)"

text \<open>\<^verbatim>\<open>update_one(filter, {"$set": ..})\<close> changes the first document that matches and does
  nothing when none matches (no upsert is requested).\<close>

fun update_one :: "('a \<Rightarrow> bool) \<Rightarrow> ('a \<Rightarrow> 'a) \<Rightarrow> 'a list \<Rightarrow> 'a list" where
  "update_one p f [] = []"
| "update_one p f (x # xs) = (if p x then f x # xs else x # update_one p f xs)"

text \<open>\<^verbatim>\<open>random.choice(seq)\<close> and \<^verbatim>\<open>random.randint(a, b)\<close>, as functions of the raw draw
  \<open>r\<close> of the generator: an element of \<open>seq\<close>, an integer of \<open>[a, b]\<close>. The source calls
  \<open>choice\<close> on a four-element literal only.\<close>

definition choice :: "'a list \<Rightarrow> nat \<Rightarrow> 'a" where
  "choice seq r = seq ! (r mod length seq)"

definition randint :: "int \<Rightarrow> int \<Rightarrow> nat \<Rightarrow> int" where
  "randint a b r = a + int (r mod nat (b - a + 1))"

text \<open>\<^verbatim>\<open>str(n)\<close> of an integer, as the f-string of \<^verbatim>\<open>verify_biometric\<close> formats it.\<close>

fun str_nat :: "nat \<Rightarrow> pystr" where
  "str_nat n = (if n < 10 then [48 + n] else str_nat (n div 10) @ [48 + n mod 10])"

declare str_nat.simps [simp del]

definition str_int :: "int \<Rightarrow> pystr" where
  "str_int i = (if i < 0 then 45 # str_nat (nat (- i)) else str_nat (nat i))"

text \<open>\<^verbatim>\<open>str.title()\<close> on ASCII letters: a letter that follows a letter is lowered, any other
  letter is raised. The source calls it on \<^verbatim>\<open>"aadhaar"\<close> and \<^verbatim>\<open>"digilocker"\<close> only.\<close>

definition is_alpha :: "nat \<Rightarrow> bool" where
  "is_alpha c = ((65 \<le> c \<and> c \<le> 90) \<or> (97 \<le> c \<and> c \<le> 122))"

definition upper :: "nat \<Rightarrow> nat" where
  "upper c = (if 97 \<le> c \<and> c \<le> 122 then c - 32 else c)"

definition lower :: "nat \<Rightarrow> nat" where
  "lower c = (if 65 \<le> c \<and> c \<le> 90 then c + 32 else c)"

fun title_from :: "bool \<Rightarrow> pystr \<Rightarrow> pystr" where
  "title_from prev [] = []"
| "title_from prev (c # cs) = (if prev then lower c else upper c) # title_from (is_alpha c) cs"

definition title :: "pystr \<Rightarrow> pystr" where
  "title s = title_from False s"

section \<open>The response catalog\<close>

definition responses :: "(pystr \<times> pystr) list" where
  "responses = [
    (lit ''welcome'',
      lit ''Hi there! I'm Boardy, your personal AI banking assistant! '' @ [0x1F44B] @ lit '' I'll help you complete your account opening in just a few simple steps. We'll verify your mobile number and email, then complete your KYC process. Ready to get started with me? '' @ [0x1F680]),
    (lit ''phone_verification'',
      lit ''Great! Now I need to verify your mobile number. Please enter your 10-digit mobile number, and I'll send you an OTP for verification. '' @ [0x1F4F1]),
    (lit ''phone_otp_verification'',
      lit ''Perfect! I've sent a 6-digit OTP to your mobile number. Please enter the OTP you received. (For demo: use 123456) '' @ [0x1F522]),
    (lit ''email_verification'',
      lit ''Excellent! Now let's verify your email address. Please provide your email ID, and I'll send you a verification code. '' @ [0x1F4E7]),
    (lit ''email_otp_verification'',
      lit ''Great! I've sent a 6-digit OTP to your email address. Please check your inbox and enter the OTP you received. (For demo: use 654321) '' @ [0x1F4E7] @ [0x2728]),
    (lit ''pan_verification'',
      lit ''Now let's start with your KYC verification. First, I need to verify your PAN card details. Please enter your 10-character PAN number. '' @ [0x1F194]),
    (lit ''kyc_document'',
      lit ''Excellent! Your PAN is verified. Now please choose your preferred KYC method:\<newline>\<newline>'' @ [0x1FAAA] @ lit '' **Aadhaar eKYC** - Quick verification using your Aadhaar number\<newline>'' @ [0x1F4C4] @ lit '' **DigiLocker** - Upload documents from your DigiLocker\<newline>\<newline>You can also upload documents directly for verification.''),
    (lit ''face_verification'',
      lit ''Almost there! Now I need to capture your photo for biometric verification. This helps us ensure account security. Please position your face clearly in the camera frame and click capture. '' @ [0x1F4F8]),
    (lit ''additional_info'',
      lit ''Great! Your identity is verified. Now I need some additional information to complete your profile. This helps us provide better services tailored to your needs. '' @ [0x1F4CB]),
    (lit ''esign'',
      lit ''Final step! Please review your application details and provide your digital signature to complete the account opening process. '' @ [0x270D] @ [0xFE0F]),
    (lit ''completion'',
      [0x1F389] @ lit '' Congratulations! Your account opening is complete! \<newline>\<newline>Your application has been submitted successfully. You'll receive:\<newline>'' @ [0x2022] @ lit '' Account details via SMS/Email within 24 hours\<newline>'' @ [0x2022] @ lit '' Debit card delivery in 3-5 business days\<newline>'' @ [0x2022] @ lit '' Welcome kit with all account information\<newline>\<newline>Thank you for choosing us! - Boardy '' @ [0x1F60A])]"

text \<open>\<^verbatim>\<open>responses.get(step, default)\<close>. The parameter \<^verbatim>\<open>context\<close> of the source is never read
  and is left out.\<close>

definition get_ai_response :: "pystr \<Rightarrow> pystr" where
  "get_ai_response step =
     (case map_of responses step of
        Some r \<Rightarrow> r
      | None \<Rightarrow> lit ''I'm Boardy, and I'm here to help you with your account opening. What would you like to know?'')"

section \<open>The routes\<close>

text \<open>
  Every handler that writes takes the store and returns what it answers together with the
  store it leaves behind; a handler that can raise answers with a sum, \<open>Inl\<close> being the
  exception. The inputs the source draws from outside are
  arguments: the UUID of a new session, the clock readings, the raw random draw. The
  \<^verbatim>\<open>asyncio.sleep\<close> delays change no state and are left out.
\<close>

definition start_onboarding ::
  "pystr \<Rightarrow> datetime \<Rightarrow> datetime \<Rightarrow> datetime \<Rightarrow> database \<Rightarrow> StartReply \<times> database" where
  "start_onboarding uuid4 t_created t_updated t_msg db =
     (let session = \<lparr>OnboardingSession.id = uuid4, customer_phone = None, customer_email = None,
                      current_step = lit ''welcome'', progress_percentage = 0,
                      created_at = t_created, updated_at = t_updated,
                      status = lit ''in_progress''\<rparr>;
          db1 = db\<lparr>onboarding_sessions := insert_one session (onboarding_sessions db)\<rparr>;
          initial_message = \<lparr>ChatMessage.session_id = OnboardingSession.id session,
                              ChatMessage.message = get_ai_response (lit ''welcome''),
                              sender = lit ''agent'', timestamp = t_msg\<rparr>;
          db2 = db1\<lparr>chat_messages := insert_one initial_message (chat_messages db1)\<rparr>
      in (\<lparr>StartReply.session_id = OnboardingSession.id session,
            StartReply.message = ChatMessage.message initial_message\<rparr>, db2))"

definition get_session :: "pystr \<Rightarrow> database \<Rightarrow> error + OnboardingSession" where
  "get_session sid db =
     (case find_one (\<lambda>s. OnboardingSession.id s = sid) (onboarding_sessions db) of
        None \<Rightarrow> Inl (HTTPException 404 (lit ''Session not found''))
      | Some session \<Rightarrow> Inr session)"

text \<open>\<^verbatim>\<open>chat\<close> answers \<^verbatim>\<open>{"message": ai_response}\<close>; the model returns \<open>ai_response\<close>.\<close>

definition chat :: "ChatMessage \<Rightarrow> datetime \<Rightarrow> database \<Rightarrow> (error + pystr) \<times> database" where
  "chat msg t_msg db =
     (let db1 = db\<lparr>chat_messages := insert_one msg (chat_messages db)\<rparr>
      in case find_one (\<lambda>s. OnboardingSession.id s = ChatMessage.session_id msg)
                (onboarding_sessions db1) of
           None \<Rightarrow> (Inl (HTTPException 404 (lit ''Session not found'')), db1)
         | Some session \<Rightarrow>
             (let ai_response = get_ai_response (current_step session);
                  ai_message = \<lparr>ChatMessage.session_id = ChatMessage.session_id msg,
                                 ChatMessage.message = ai_response,
                                 sender = lit ''agent'', timestamp = t_msg\<rparr>;
                  db2 = db1\<lparr>chat_messages := insert_one ai_message (chat_messages db1)\<rparr>
              in (Inr ai_response, db2)))"

text \<open>The documents of a collection of messages: each message with its \<^verbatim>\<open>_id\<close>.\<close>

definition documents :: "ChatMessage list \<Rightarrow> ChatDocument list" where
  "documents coll =
     map (\<lambda>(i, m). \<lparr>ChatMessage.session_id = ChatMessage.session_id m,
                     ChatMessage.message = ChatMessage.message m,
                     sender = sender m, timestamp = timestamp m, object_id = i\<rparr>)
       (enumerate 0 coll)"

text \<open>\<^verbatim>\<open>find({"session_id": ..}).sort("timestamp", 1).to_list(100)\<close>: the documents of the
  session by ascending timestamp, at most 100 of them. The handler returns them with the
  \<^verbatim>\<open>_id\<close> left in.\<close>

definition get_chat_history :: "pystr \<Rightarrow> database \<Rightarrow> ChatDocument list" where
  "get_chat_history sid db =
     take 100 (sort_key timestamp
       (filter (\<lambda>d. ChatMessage.session_id d = sid) (documents (chat_messages db))))"

text \<open>
  What the route \<^verbatim>\<open>GET /chat/{session_id}\<close> answers with the list the handler returns. The
  framework encodes the returned value as JSON, and an \<^verbatim>\<open>ObjectId\<close> has no encoding: the
  encoder raises on the first document, and the request ends with status 500. Only an
  empty history is answered.
\<close>

datatype 'a answer = OK 'a | InternalServerError

definition chat_history_route :: "pystr \<Rightarrow> database \<Rightarrow> ChatDocument list answer" where
  "chat_history_route sid db =
     (case get_chat_history sid db of [] \<Rightarrow> OK [] | d # ds \<Rightarrow> InternalServerError)"

text \<open>The two statements every transition ends with: \<^verbatim>\<open>update_one\<close> on the session with the
  given id, then \<^verbatim>\<open>insert_one\<close> of the agent's message.\<close>

definition set_session ::
  "pystr \<Rightarrow> (OnboardingSession \<Rightarrow> OnboardingSession) \<Rightarrow> database \<Rightarrow> database" where
  "set_session sid upd db =
     db\<lparr>onboarding_sessions :=
          update_one (\<lambda>s. OnboardingSession.id s = sid) upd (onboarding_sessions db)\<rparr>"

definition agent_says :: "pystr \<Rightarrow> pystr \<Rightarrow> datetime \<Rightarrow> database \<Rightarrow> database" where
  "agent_says sid text t_msg db =
     db\<lparr>chat_messages :=
          insert_one \<lparr>ChatMessage.session_id = sid, ChatMessage.message = text,
                      sender = lit ''agent'', timestamp = t_msg\<rparr> (chat_messages db)\<rparr>"

definition verify_phone ::
  "VerificationRequest \<Rightarrow> datetime \<Rightarrow> datetime \<Rightarrow> database \<Rightarrow> Reply \<times> database" where
  "verify_phone request t_upd t_msg db =
     (let db1 = set_session (VerificationRequest.session_id request)
                  (\<lambda>s. s\<lparr>customer_phone := phone request,
                          current_step := lit ''phone_otp_verification'',
                          progress_percentage := 15,
                          updated_at := t_upd\<rparr>) db;
          db2 = agent_says (VerificationRequest.session_id request)
                  (get_ai_response (lit ''phone_otp_verification'')) t_msg db1
      in (\<lparr>success = True, Reply.message = lit ''OTP sent successfully to your mobile'',
            Reply.otp = Some (lit ''123456'')\<rparr>, db2))"

text \<open>The sentence that \<^verbatim>\<open>verify_otp\<close> puts before the canned prompt when the email code
  is right.\<close>

definition email_verified_prefix :: pystr where
  "email_verified_prefix =
     lit ''Perfect! Email verified successfully! '' @ [0x2705] @ lit '' I've sent a verification confirmation to your email. ''"

definition verify_otp ::
  "VerificationRequest \<Rightarrow> datetime \<Rightarrow> datetime \<Rightarrow> database \<Rightarrow> Reply \<times> database" where
  "verify_otp request t_upd t_msg db =
     (if verification_type request = Some (lit ''phone'') then
        (if VerificationRequest.otp request \<noteq> Some (lit ''123456'') then
           (\<lparr>success = False, Reply.message = lit ''Invalid OTP. Please try again.'',
             Reply.otp = None\<rparr>, db)
         else
           (let db1 = set_session (VerificationRequest.session_id request)
                        (\<lambda>s. s\<lparr>current_step := lit ''email_verification'',
                                progress_percentage := 25,
                                updated_at := t_upd\<rparr>) db;
                db2 = agent_says (VerificationRequest.session_id request)
                        (get_ai_response (lit ''email_verification'')) t_msg db1
            in (\<lparr>success = True, Reply.message = lit ''Phone verified successfully!'',
                  Reply.otp = None\<rparr>, db2)))
      else if verification_type request = Some (lit ''email'') then
        (if VerificationRequest.otp request \<noteq> Some (lit ''654321'') then
           (\<lparr>success = False, Reply.message = lit ''Invalid email OTP. Please try again.'',
             Reply.otp = None\<rparr>, db)
         else
           (let db1 = set_session (VerificationRequest.session_id request)
                        (\<lambda>s. s\<lparr>current_step := lit ''pan_verification'',
                                progress_percentage := 35,
                                updated_at := t_upd\<rparr>) db;
                db2 = agent_says (VerificationRequest.session_id request)
                        (email_verified_prefix @ get_ai_response (lit ''pan_verification'')) t_msg db1
            in (\<lparr>success = True,
                  Reply.message = lit ''Email verified successfully! Confirmation sent to your email.'',
                  Reply.otp = None\<rparr>, db2)))
      else
        (\<lparr>success = False, Reply.message = lit ''Invalid verification type.'',
          Reply.otp = None\<rparr>, db))"

definition verify_email ::
  "VerificationRequest \<Rightarrow> datetime \<Rightarrow> datetime \<Rightarrow> database \<Rightarrow> Reply \<times> database" where
  "verify_email request t_upd t_msg db =
     (let db1 = set_session (VerificationRequest.session_id request)
                  (\<lambda>s. s\<lparr>customer_email := email request,
                          current_step := lit ''email_otp_verification'',
                          progress_percentage := 30,
                          updated_at := t_upd\<rparr>) db;
          db2 = agent_says (VerificationRequest.session_id request)
                  (get_ai_response (lit ''email_otp_verification'')) t_msg db1
      in (\<lparr>success = True, Reply.message = lit ''OTP sent successfully to your email!'',
            Reply.otp = Some (lit ''654321'')\<rparr>, db2))"

text \<open>\<^verbatim>\<open>not request.pan_number\<close> holds for an absent and for an empty PAN.\<close>

definition verify_kyc_document ::
  "KYCDocumentRequest \<Rightarrow> nat \<Rightarrow> datetime \<Rightarrow> datetime \<Rightarrow> database \<Rightarrow> Reply \<times> database" where
  "verify_kyc_document request r t_upd t_msg db =
     (if document_type request = lit ''pan'' then
        (if (case pan_number request of None \<Rightarrow> True | Some p \<Rightarrow> p = [] \<or> length p \<noteq> 10) then
           (\<lparr>success = False,
             Reply.message = lit ''Please enter a valid 10-character PAN number.'',
             Reply.otp = None\<rparr>, db)
         else
           (let ok = choice [True, True, True, False] r
            in if \<not> ok then
                 (\<lparr>success = False,
                   Reply.message = lit ''PAN verification failed. Please check your PAN number and try again.'',
                   Reply.otp = None\<rparr>, db)
               else
                 (let db1 = set_session (KYCDocumentRequest.session_id request)
                              (\<lambda>s. s\<lparr>current_step := lit ''kyc_document'',
                                      progress_percentage := 45,
                                      updated_at := t_upd\<rparr>) db;
                      db2 = agent_says (KYCDocumentRequest.session_id request)
                              (get_ai_response (lit ''kyc_document'')) t_msg db1
                  in (\<lparr>success = True, Reply.message = lit ''PAN verified successfully!'',
                        Reply.otp = None\<rparr>, db2))))
      else if document_type request \<in> set [lit ''aadhaar'', lit ''digilocker''] then
        (let ok = choice [True, True, True, False] r
         in if \<not> ok then
              (\<lparr>success = False,
                Reply.message = title (document_type request)
                  @ lit '' verification failed. Please check your details and try again.'',
                Reply.otp = None\<rparr>, db)
            else
              (let db1 = set_session (KYCDocumentRequest.session_id request)
                           (\<lambda>s. s\<lparr>current_step := lit ''face_verification'',
                                   progress_percentage := 60,
                                   updated_at := t_upd\<rparr>) db;
                   db2 = agent_says (KYCDocumentRequest.session_id request)
                           (get_ai_response (lit ''face_verification'')) t_msg db1
               in (\<lparr>success = True,
                     Reply.message = title (document_type request) @ lit '' verified successfully!'',
                     Reply.otp = None\<rparr>, db2)))
      else
        (\<lparr>success = False, Reply.message = lit ''Invalid document type.'',
          Reply.otp = None\<rparr>, db))"

definition verify_biometric ::
  "BiometricRequest \<Rightarrow> nat \<Rightarrow> datetime \<Rightarrow> datetime \<Rightarrow> database \<Rightarrow> Reply \<times> database" where
  "verify_biometric request r t_upd t_msg db =
     (let match_score = randint 85 98 r;
          ok = (match_score \<ge> 85)
      in if \<not> ok then
           (\<lparr>success = False,
             Reply.message = lit ''Face verification failed. Please try again with better lighting.'',
             Reply.otp = None\<rparr>, db)
         else
           (let db1 = set_session (BiometricRequest.session_id request)
                        (\<lambda>s. s\<lparr>current_step := lit ''additional_info'',
                                progress_percentage := 80,
                                updated_at := t_upd\<rparr>) db;
                db2 = agent_says (BiometricRequest.session_id request)
                        (get_ai_response (lit ''additional_info'')) t_msg db1
            in (\<lparr>success = True,
                  Reply.message = lit ''Face verification successful! Match score: ''
                    @ str_int match_score @ lit ''%'',
                  Reply.otp = None\<rparr>, db2)))"

definition submit_additional_info ::
  "AdditionalInfoRequest \<Rightarrow> datetime \<Rightarrow> datetime \<Rightarrow> database \<Rightarrow> Reply \<times> database" where
  "submit_additional_info request t_upd t_msg db =
     (let db1 = set_session (AdditionalInfoRequest.session_id request)
                  (\<lambda>s. s\<lparr>current_step := lit ''esign'',
                          progress_percentage := 90,
                          updated_at := t_upd\<rparr>) db;
          db2 = agent_says (AdditionalInfoRequest.session_id request)
                  (get_ai_response (lit ''esign'')) t_msg db1
      in (\<lparr>success = True, Reply.message = lit ''Information saved successfully!'',
            Reply.otp = None\<rparr>, db2))"

definition complete_esign ::
  "ESignRequest \<Rightarrow> datetime \<Rightarrow> datetime \<Rightarrow> database \<Rightarrow> Reply \<times> database" where
  "complete_esign request t_upd t_msg db =
     (let db1 = set_session (ESignRequest.session_id request)
                  (\<lambda>s. s\<lparr>current_step := lit ''completion'',
                          progress_percentage := 100,
                          status := lit ''completed'',
                          updated_at := t_upd\<rparr>) db;
          db2 = agent_says (ESignRequest.session_id request)
                  (get_ai_response (lit ''completion'')) t_msg db1
      in (\<lparr>success = True, Reply.message = lit ''Onboarding completed successfully!'',
            Reply.otp = None\<rparr>, db2))"

section \<open>Sequences of calls\<close>

text \<open>One call of a transition endpoint, with the inputs it draws from outside.\<close>

datatype transition =
    VerifyPhone VerificationRequest datetime datetime
  | VerifyOtp VerificationRequest datetime datetime
  | VerifyEmail VerificationRequest datetime datetime
  | VerifyKycDocument KYCDocumentRequest nat datetime datetime
  | VerifyBiometric BiometricRequest nat datetime datetime
  | SubmitAdditionalInfo AdditionalInfoRequest datetime datetime
  | CompleteEsign ESignRequest datetime datetime

fun transit :: "transition \<Rightarrow> database \<Rightarrow> Reply \<times> database" where
  "transit (VerifyPhone rq t1 t2) db = verify_phone rq t1 t2 db"
| "transit (VerifyOtp rq t1 t2) db = verify_otp rq t1 t2 db"
| "transit (VerifyEmail rq t1 t2) db = verify_email rq t1 t2 db"
| "transit (VerifyKycDocument rq r t1 t2) db = verify_kyc_document rq r t1 t2 db"
| "transit (VerifyBiometric rq r t1 t2) db = verify_biometric rq r t1 t2 db"
| "transit (SubmitAdditionalInfo rq t1 t2) db = submit_additional_info rq t1 t2 db"
| "transit (CompleteEsign rq t1 t2) db = complete_esign rq t1 t2 db"

text \<open>The session id a transition call names.\<close>

fun requested_session :: "transition \<Rightarrow> pystr" where
  "requested_session (VerifyPhone rq t1 t2) = VerificationRequest.session_id rq"
| "requested_session (VerifyOtp rq t1 t2) = VerificationRequest.session_id rq"
| "requested_session (VerifyEmail rq t1 t2) = VerificationRequest.session_id rq"
| "requested_session (VerifyKycDocument rq r t1 t2) = KYCDocumentRequest.session_id rq"
| "requested_session (VerifyBiometric rq r t1 t2) = BiometricRequest.session_id rq"
| "requested_session (SubmitAdditionalInfo rq t1 t2) = AdditionalInfoRequest.session_id rq"
| "requested_session (CompleteEsign rq t1 t2) = ESignRequest.session_id rq"

text \<open>The call of \<^verbatim>\<open>verify_otp\<close> for the email code.\<close>

fun email_otp_call :: "transition \<Rightarrow> bool" where
  "email_otp_call (VerifyOtp rq t1 t2) = (verification_type rq = Some (lit ''email''))"
| "email_otp_call _ = False"

text \<open>One call of any route. The read-only routes leave the store as it is.\<close>

datatype call =
    StartOnboarding pystr datetime datetime datetime
  | GetSession pystr
  | Chat ChatMessage datetime
  | GetChatHistory pystr
  | Transition transition

fun serve :: "call \<Rightarrow> database \<Rightarrow> database" where
  "serve (StartOnboarding u t1 t2 t3) db = snd (start_onboarding u t1 t2 t3 db)"
| "serve (GetSession sid) db = db"
| "serve (Chat msg t) db = snd (chat msg t db)"
| "serve (GetChatHistory sid) db = db"
| "serve (Transition tr) db = snd (transit tr db)"

text \<open>The store after a sequence of calls, the first call first.\<close>

fun run :: "call list \<Rightarrow> database \<Rightarrow> database" where
  "run [] db = db"
| "run (c # cs) db = run cs (serve c db)"

text \<open>The fixed order of the steps: the order of the keys of the response catalog.\<close>

definition step_order :: "pystr list" where
  "step_order = map fst responses"

fun index_of :: "'a \<Rightarrow> 'a list \<Rightarrow> nat" where
  "index_of x [] = 0"
| "index_of x (y # ys) = (if x = y then 0 else Suc (index_of x ys))"

definition step_index :: "pystr \<Rightarrow> nat" where
  "step_index step = index_of step step_order"

text \<open>The progress table as the specification gives it (section 4.1), to be compared with
  the values the routes write.\<close>

definition spec_progress_table :: "(pystr \<times> int) list" where
  "spec_progress_table =
    [(lit ''welcome'', 0),
     (lit ''phone_otp_verification'', 15),
     (lit ''email_verification'', 25),
     (lit ''email_otp_verification'', 30),
     (lit ''pan_verification'', 35),
     (lit ''kyc_document'', 45),
     (lit ''face_verification'', 60),
     (lit ''additional_info'', 80),
     (lit ''esign'', 90),
     (lit ''completion'', 100)]"

section \<open>A store with one fresh session, for the concrete checks\<close>

definition demo_session :: OnboardingSession where
  "demo_session =
     \<lparr>OnboardingSession.id = lit ''s1'', customer_phone = None, customer_email = None,
      current_step = lit ''welcome'', progress_percentage = 0, created_at = 1, updated_at = 1,
      status = lit ''in_progress''\<rparr>"

definition demo_db :: database where
  "demo_db = snd (start_onboarding (lit ''s1'') 1 1 1 empty_db)"

definition demo_phone :: VerificationRequest where
  "demo_phone =
     \<lparr>VerificationRequest.session_id = lit ''s1'', phone = Some (lit ''9876543210''),
      email = None, VerificationRequest.otp = None, verification_type = None\<rparr>"

definition demo_esign :: ESignRequest where
  "demo_esign = \<lparr>ESignRequest.session_id = lit ''s1'', signature_data = lit ''sig''\<rparr>"

definition pan_request :: "pystr option \<Rightarrow> KYCDocumentRequest" where
  "pan_request pan =
     \<lparr>KYCDocumentRequest.session_id = lit ''s1'', document_type = lit ''pan'', pan_number = pan,
      aadhaar_number = None, document_data = None, document_file = None\<rparr>"

definition otp_request :: "string \<Rightarrow> string \<Rightarrow> VerificationRequest" where
  "otp_request kind code =
     \<lparr>VerificationRequest.session_id = lit ''s1'', phone = None, email = None,
      VerificationRequest.otp = Some (lit code), verification_type = Some (lit kind)\<rparr>"

text \<open>Requests that name a session the empty store does not hold.\<close>

definition ghost_verification :: VerificationRequest where
  "ghost_verification =
     \<lparr>VerificationRequest.session_id = lit ''ghost'', phone = Some (lit ''9876543210''),
      email = Some (lit ''a@b.c''), VerificationRequest.otp = Some (lit ''123456''),
      verification_type = Some (lit ''phone'')\<rparr>"

section \<open>Predicates of the invariant proofs\<close>

text \<open>The messages the store holds for a session.\<close>

definition stored_messages :: "pystr \<Rightarrow> database \<Rightarrow> ChatMessage list" where
  "stored_messages sid db = filter (\<lambda>m. ChatMessage.session_id m = sid) (chat_messages db)"

text \<open>The documents the store holds for a session: its messages, each with its \<^verbatim>\<open>_id\<close>.\<close>

definition stored_documents :: "pystr \<Rightarrow> database \<Rightarrow> ChatDocument list" where
  "stored_documents sid db =
     filter (\<lambda>d. ChatMessage.session_id d = sid) (documents (chat_messages db))"

text \<open>A session whose step and progress are a row of the table.\<close>

definition on_table :: "OnboardingSession \<Rightarrow> bool" where
  "on_table s \<longleftrightarrow> (current_step s, progress_percentage s) \<in> set spec_progress_table"

text \<open>A session as \<^verbatim>\<open>start_onboarding\<close> creates it.\<close>

definition fresh :: "OnboardingSession \<Rightarrow> bool" where
  "fresh s \<longleftrightarrow> current_step s = lit ''welcome'' \<and> progress_percentage s = 0
     \<and> status s = lit ''in_progress''"

text \<open>What one call can do to a stored session: nothing, or write a row of the table,
  with the status kept unless the row is the one of \<open>completion\<close>.\<close>

definition rewritten :: "OnboardingSession \<Rightarrow> OnboardingSession \<Rightarrow> bool" where
  "rewritten s s' \<longleftrightarrow>
     s' = s
     \<or> (OnboardingSession.id s' = OnboardingSession.id s \<and> on_table s'
        \<and> ((status s' = status s \<and> current_step s' \<noteq> lit ''completion'')
           \<or> (status s' = lit ''completed'' \<and> current_step s' = lit ''completion'')))"

definition consistent :: "OnboardingSession \<Rightarrow> bool" where
  "consistent s \<longleftrightarrow> on_table s
     \<and> (current_step s = lit ''completion'' \<longrightarrow> status s = lit ''completed'')"

section \<open>Facts about the collaborators\<close>

lemma lit_eq_iff [simp]: "lit s = lit t \<longleftrightarrow> s = t"
  by (simp add: lit_def inj_on_def inj_map_eq_map)

lemma lit_eq_Nil [simp]: "lit s = [] \<longleftrightarrow> s = []"
  by (simp add: lit_def)

lemma length_lit [simp]: "length (lit s) = length s"
  by (simp add: lit_def)

lemma find_one_update_one:
  "find_one p xs = Some x \<Longrightarrow> p (f x) \<Longrightarrow> find_one p (update_one p f xs) = Some (f x)"
  by (induction xs) (auto split: if_splits)

lemma update_one_no_match:
  "find_one p xs = None \<Longrightarrow> update_one p f xs = xs"
  by (induction xs) (auto split: if_splits)

lemma length_update_one [simp]: "length (update_one p f xs) = length xs"
  by (induction xs) auto

lemma update_one_nth:
  "i < length xs \<Longrightarrow> update_one p f xs ! i = xs ! i \<or> update_one p f xs ! i = f (xs ! i)"
proof (induction xs arbitrary: i)
  case Nil
  then show ?case by simp
next
  case (Cons x xs)
  then show ?case by (cases i) auto
qed

lemma randint_bounds: "a \<le> b \<Longrightarrow> a \<le> randint a b r \<and> randint a b r \<le> b"
proof -
  assume ab: "a \<le> b"
  then have pos: "0 < nat (b - a + 1)" by simp
  have "r mod nat (b - a + 1) < nat (b - a + 1)" using pos by (rule mod_less_divisor)
  then have "int (r mod nat (b - a + 1)) < b - a + 1" using ab by linarith
  then show ?thesis unfolding randint_def by simp
qed

lemma onboarding_sessions_agent_says [simp]:
  "onboarding_sessions (agent_says sid text t db) = onboarding_sessions db"
  by (simp add: agent_says_def)

lemma chat_messages_agent_says [simp]:
  "chat_messages (agent_says sid text t db) =
     chat_messages db @ [\<lparr>ChatMessage.session_id = sid, ChatMessage.message = text,
                           sender = lit ''agent'', timestamp = t\<rparr>]"
  by (simp add: agent_says_def insert_one_def)

lemma chat_messages_set_session [simp]:
  "chat_messages (set_session sid upd db) = chat_messages db"
  by (simp add: set_session_def)

lemma onboarding_sessions_set_session [simp]:
  "onboarding_sessions (set_session sid upd db) =
     update_one (\<lambda>s. OnboardingSession.id s = sid) upd (onboarding_sessions db)"
  by (simp add: set_session_def)

subsection \<open>Reading a session back after an update\<close>

lemma find_one_holds: "find_one p xs = Some x \<Longrightarrow> p x"
  by (induction xs) (auto split: if_splits)

lemma get_session_Inr_iff:
  "get_session sid db = Inr s \<longleftrightarrow>
     find_one (\<lambda>s. OnboardingSession.id s = sid) (onboarding_sessions db) = Some s"
  by (simp add: get_session_def split: option.splits)

lemma get_session_Inl_iff:
  "get_session sid db = Inl e \<longleftrightarrow>
     find_one (\<lambda>s. OnboardingSession.id s = sid) (onboarding_sessions db) = None
       \<and> e = HTTPException 404 (lit ''Session not found'')"
  by (auto simp add: get_session_def split: option.splits)

lemma get_session_agent_says [simp]:
  "get_session sid (agent_says sid' text t db) = get_session sid db"
  by (simp add: get_session_def)

lemma get_session_set_session:
  assumes "get_session sid db = Inr s"
    and "OnboardingSession.id (upd s) = OnboardingSession.id s"
  shows "get_session sid (set_session sid upd db) = Inr (upd s)"
proof -
  from assms(1)
  have f: "find_one (\<lambda>s. OnboardingSession.id s = sid) (onboarding_sessions db) = Some s"
    by (simp add: get_session_Inr_iff)
  then have "OnboardingSession.id s = sid" by (rule find_one_holds)
  with assms(2) have "OnboardingSession.id (upd s) = sid" by simp
  with f have "find_one (\<lambda>s. OnboardingSession.id s = sid)
      (update_one (\<lambda>s. OnboardingSession.id s = sid) upd (onboarding_sessions db)) = Some (upd s)"
    by (rule find_one_update_one)
  then show ?thesis by (simp add: get_session_Inr_iff)
qed

lemma set_session_absent:
  "get_session sid db = Inl e \<Longrightarrow> set_session sid upd db = db"
  by (simp add: get_session_Inl_iff set_session_def update_one_no_match)

subsection \<open>The store with one fresh session\<close>

lemma demo_db_sessions: "onboarding_sessions demo_db = [demo_session]"
  by (simp add: demo_db_def start_onboarding_def Let_def insert_one_def empty_db_def
      demo_session_def)

lemma demo_db_messages:
  "chat_messages demo_db =
     [\<lparr>ChatMessage.session_id = lit ''s1'', ChatMessage.message = get_ai_response (lit ''welcome''),
       sender = lit ''agent'', timestamp = 1\<rparr>]"
  by (simp add: demo_db_def start_onboarding_def Let_def insert_one_def empty_db_def)

lemma get_session_demo: "get_session (lit ''s1'') demo_db = Inr demo_session"
  by (simp add: get_session_def demo_db_sessions) (simp add: demo_session_def)

subsection \<open>The random draw and the one-time codes\<close>

lemma choice_draw: "choice [True, True, True, False] r \<longleftrightarrow> r mod 4 \<noteq> 3"
proof -
  have "r mod 4 < 4" by simp
  then consider "r mod 4 = 0" | "r mod 4 = 1" | "r mod 4 = 2" | "r mod 4 = 3" by linarith
  then show ?thesis by cases (simp_all add: choice_def)
qed

lemma verify_otp_success_iff:
  "success (fst (verify_otp request t_upd t_msg db)) \<longleftrightarrow>
      (verification_type request = Some (lit ''phone'')
         \<and> VerificationRequest.otp request = Some (lit ''123456''))
    \<or> (verification_type request = Some (lit ''email'')
         \<and> VerificationRequest.otp request = Some (lit ''654321''))"
  by (simp add: verify_otp_def Let_def)

lemma verify_otp_failure_unchanged:
  "\<not> success (fst (verify_otp request t_upd t_msg db)) \<Longrightarrow>
     snd (verify_otp request t_upd t_msg db) = db"
  by (simp add: verify_otp_def Let_def split: if_splits)

lemma verify_otp_retries:
  "(\<forall>c \<in> set cs. \<exists>rq t1 t2. c = Transition (VerifyOtp rq t1 t2)
        \<and> \<not> success (fst (verify_otp rq t1 t2 db))) \<Longrightarrow> run cs db = db"
proof (induction cs)
  case Nil
  then show ?case by simp
next
  case (Cons c cs)
  then obtain rq t1 t2 where c: "c = Transition (VerifyOtp rq t1 t2)"
    and f: "\<not> success (fst (verify_otp rq t1 t2 db))" by auto
  from f have "serve c db = db" by (simp add: c verify_otp_failure_unchanged)
  with Cons show ?case by simp
qed

subsection \<open>What one call does to the stored sessions\<close>

lemma rewritten_refl [simp]: "rewritten s s"
  by (simp add: rewritten_def)

lemma update_one_rewritten:
  assumes "i < length xs" and "\<And>s. rewritten s (f s)"
  shows "rewritten (xs ! i) (update_one p f xs ! i)"
  using update_one_nth [OF assms(1), of p f] assms(2) by auto

lemma step_order_eq:
  "step_order = [lit ''welcome'', lit ''phone_verification'', lit ''phone_otp_verification'',
     lit ''email_verification'', lit ''email_otp_verification'', lit ''pan_verification'',
     lit ''kyc_document'', lit ''face_verification'', lit ''additional_info'', lit ''esign'',
     lit ''completion'']"
  by (simp add: step_order_def responses_def)

lemma transit_rewritten:
  assumes "i < length (onboarding_sessions db)"
  shows "rewritten (onboarding_sessions db ! i) (onboarding_sessions (snd (transit tr db)) ! i)"
proof (cases tr)
  case (VerifyPhone rq t1 t2)
  show ?thesis unfolding VerifyPhone transit.simps verify_phone_def Let_def snd_conv
      onboarding_sessions_agent_says onboarding_sessions_set_session
    by (rule update_one_rewritten [OF assms])
       (simp add: rewritten_def on_table_def spec_progress_table_def)
next
  case (VerifyOtp rq t1 t2)
  have a: "rewritten (onboarding_sessions db ! i)
      (update_one p (\<lambda>s. s\<lparr>current_step := lit ''email_verification'',
         progress_percentage := 25, updated_at := t1\<rparr>) (onboarding_sessions db) ! i)" for p
    by (rule update_one_rewritten [OF assms])
       (simp add: rewritten_def on_table_def spec_progress_table_def)
  have b: "rewritten (onboarding_sessions db ! i)
      (update_one p (\<lambda>s. s\<lparr>current_step := lit ''pan_verification'',
         progress_percentage := 35, updated_at := t1\<rparr>) (onboarding_sessions db) ! i)" for p
    by (rule update_one_rewritten [OF assms])
       (simp add: rewritten_def on_table_def spec_progress_table_def)
  show ?thesis by (simp add: VerifyOtp verify_otp_def Let_def a b)
next
  case (VerifyEmail rq t1 t2)
  show ?thesis unfolding VerifyEmail transit.simps verify_email_def Let_def snd_conv
      onboarding_sessions_agent_says onboarding_sessions_set_session
    by (rule update_one_rewritten [OF assms])
       (simp add: rewritten_def on_table_def spec_progress_table_def)
next
  case (VerifyKycDocument rq r t1 t2)
  have a: "rewritten (onboarding_sessions db ! i)
      (update_one p (\<lambda>s. s\<lparr>current_step := lit ''kyc_document'',
         progress_percentage := 45, updated_at := t1\<rparr>) (onboarding_sessions db) ! i)" for p
    by (rule update_one_rewritten [OF assms])
       (simp add: rewritten_def on_table_def spec_progress_table_def)
  have b: "rewritten (onboarding_sessions db ! i)
      (update_one p (\<lambda>s. s\<lparr>current_step := lit ''face_verification'',
         progress_percentage := 60, updated_at := t1\<rparr>) (onboarding_sessions db) ! i)" for p
    by (rule update_one_rewritten [OF assms])
       (simp add: rewritten_def on_table_def spec_progress_table_def)
  show ?thesis by (simp add: VerifyKycDocument verify_kyc_document_def Let_def a b)
next
  case (VerifyBiometric rq r t1 t2)
  have a: "rewritten (onboarding_sessions db ! i)
      (update_one p (\<lambda>s. s\<lparr>current_step := lit ''additional_info'',
         progress_percentage := 80, updated_at := t1\<rparr>) (onboarding_sessions db) ! i)" for p
    by (rule update_one_rewritten [OF assms])
       (simp add: rewritten_def on_table_def spec_progress_table_def)
  show ?thesis by (simp add: VerifyBiometric verify_biometric_def Let_def a)
next
  case (SubmitAdditionalInfo rq t1 t2)
  show ?thesis unfolding SubmitAdditionalInfo transit.simps submit_additional_info_def Let_def
      snd_conv onboarding_sessions_agent_says onboarding_sessions_set_session
    by (rule update_one_rewritten [OF assms])
       (simp add: rewritten_def on_table_def spec_progress_table_def)
next
  case (CompleteEsign rq t1 t2)
  show ?thesis unfolding CompleteEsign transit.simps complete_esign_def Let_def
      snd_conv onboarding_sessions_agent_says onboarding_sessions_set_session
    by (rule update_one_rewritten [OF assms])
       (simp add: rewritten_def on_table_def spec_progress_table_def)
qed

lemma length_transit [simp]:
  "length (onboarding_sessions (snd (transit tr db))) = length (onboarding_sessions db)"
  by (cases tr)
     (simp_all add: verify_phone_def verify_otp_def verify_email_def verify_kyc_document_def
        verify_biometric_def submit_additional_info_def complete_esign_def Let_def)

lemma sessions_chat [simp]:
  "onboarding_sessions (snd (chat msg t db)) = onboarding_sessions db"
  by (simp add: chat_def Let_def split: option.splits)

lemma sessions_start:
  "\<exists>s. fresh s \<and> onboarding_sessions (snd (start_onboarding u t1 t2 t3 db)) =
      onboarding_sessions db @ [s]"
  by (simp add: start_onboarding_def Let_def insert_one_def fresh_def)

lemma serve_sessions:
  assumes "i < length (onboarding_sessions (serve c db))"
  shows "(i < length (onboarding_sessions db)
          \<and> rewritten (onboarding_sessions db ! i) (onboarding_sessions (serve c db) ! i))
       \<or> (i = length (onboarding_sessions db) \<and> fresh (onboarding_sessions (serve c db) ! i))"
proof (cases c)
  case (StartOnboarding u t1 t2 t3)
  obtain s where s: "fresh s"
    "onboarding_sessions (snd (start_onboarding u t1 t2 t3 db)) = onboarding_sessions db @ [s]"
    using sessions_start by blast
  with assms show ?thesis by (auto simp add: StartOnboarding nth_append)
next
  case (Transition tr)
  with assms show ?thesis by (simp add: transit_rewritten)
qed (use assms in simp_all)

lemma length_serve:
  "length (onboarding_sessions db) \<le> length (onboarding_sessions (serve c db))"
proof (cases c)
  case (StartOnboarding u t1 t2 t3)
  then show ?thesis using sessions_start [of u t1 t2 t3 db] by auto
qed simp_all

subsection \<open>The invariant of the reachable stores\<close>

lemma fresh_consistent: "fresh s \<Longrightarrow> consistent s"
  by (simp add: fresh_def consistent_def on_table_def spec_progress_table_def)

lemma rewritten_consistent: "consistent s \<Longrightarrow> rewritten s s' \<Longrightarrow> consistent s'"
  by (auto simp add: consistent_def rewritten_def)

lemma serve_consistent:
  assumes "\<forall>s \<in> set (onboarding_sessions db). consistent s"
  shows "\<forall>s \<in> set (onboarding_sessions (serve c db)). consistent s"
proof
  fix s'
  assume "s' \<in> set (onboarding_sessions (serve c db))"
  then obtain i where i: "i < length (onboarding_sessions (serve c db))"
    and s': "s' = onboarding_sessions (serve c db) ! i"
    by (auto simp add: in_set_conv_nth)
  from serve_sessions [OF i] show "consistent s'"
  proof
    assume a: "i < length (onboarding_sessions db)
          \<and> rewritten (onboarding_sessions db ! i) (onboarding_sessions (serve c db) ! i)"
    then have "consistent (onboarding_sessions db ! i)" using assms by simp
    with a show ?thesis unfolding s' by (blast intro: rewritten_consistent)
  next
    assume "i = length (onboarding_sessions db) \<and> fresh (onboarding_sessions (serve c db) ! i)"
    then show ?thesis unfolding s' by (blast intro: fresh_consistent)
  qed
qed

lemma run_consistent:
  "\<forall>s \<in> set (onboarding_sessions db). consistent s \<Longrightarrow>
   \<forall>s \<in> set (onboarding_sessions (run cs db)). consistent s"
proof (induction cs arbitrary: db)
  case Nil
  then show ?case by simp
next
  case (Cons c cs)
  from Cons.prems have "\<forall>s \<in> set (onboarding_sessions (serve c db)). consistent s"
    by (rule serve_consistent)
  then show ?case unfolding run.simps by (rule Cons.IH)
qed

lemma reachable_consistent:
  "s \<in> set (onboarding_sessions (run cs empty_db)) \<Longrightarrow> consistent s"
  using run_consistent [of empty_db cs] by (simp add: empty_db_def)

lemma table_distinct: "distinct (map fst spec_progress_table)"
  by (simp add: spec_progress_table_def)

lemma on_table_map_of:
  "on_table s \<longleftrightarrow> map_of spec_progress_table (current_step s) = Some (progress_percentage s)"
  by (simp add: on_table_def map_of_eq_Some_iff [OF table_distinct])

lemma on_table_index:
  "on_table s \<Longrightarrow> (step_index (current_step s), progress_percentage s)
     \<in> {(0, 0), (2, 15), (3, 25), (4, 30), (5, 35), (6, 45), (7, 60), (8, 80), (9, 90), (10, 100)}"
  by (auto simp add: on_table_def spec_progress_table_def step_index_def step_order_eq)

lemma table_monotone:
  assumes "on_table s" and "on_table s'"
    and "step_index (current_step s) \<le> step_index (current_step s')"
  shows "progress_percentage s \<le> progress_percentage s'"
  using on_table_index [OF assms(1)] on_table_index [OF assms(2)] assms(3) by auto

lemma rewritten_id: "rewritten s s' \<Longrightarrow> OnboardingSession.id s' = OnboardingSession.id s"
  by (auto simp add: rewritten_def)

subsection \<open>Concrete runs\<close>

lemma serve_start_demo: "serve (StartOnboarding (lit ''s1'') 1 1 1) empty_db = demo_db"
  unfolding demo_db_def serve.simps ..

lemma run_start_demo: "run [StartOnboarding (lit ''s1'') 1 1 1] empty_db = demo_db"
  unfolding run.simps serve_start_demo ..

lemma demo_session_id: "OnboardingSession.id demo_session = lit ''s1''"
  by (simp add: demo_session_def)

lemma demo_after_phone:
  "onboarding_sessions (serve (Transition (VerifyPhone demo_phone 2 3)) demo_db) =
     [demo_session\<lparr>customer_phone := Some (lit ''9876543210''),
        current_step := lit ''phone_otp_verification'', progress_percentage := 15,
        updated_at := 2\<rparr>]"
  by (simp add: verify_phone_def Let_def demo_db_sessions demo_session_id demo_phone_def)

lemma demo_after_esign:
  "onboarding_sessions (serve (Transition (CompleteEsign demo_esign 2 3)) demo_db) =
     [demo_session\<lparr>current_step := lit ''completion'', progress_percentage := 100,
        status := lit ''completed'', updated_at := 2\<rparr>]"
  by (simp add: complete_esign_def Let_def demo_db_sessions demo_session_id demo_esign_def)

lemma demo_after_esign_phone:
  "onboarding_sessions
     (serve (Transition (VerifyPhone demo_phone 4 5))
        (serve (Transition (CompleteEsign demo_esign 2 3)) demo_db)) =
     [demo_session\<lparr>current_step := lit ''completion'', progress_percentage := 100,
        status := lit ''completed'', updated_at := 2,
        customer_phone := Some (lit ''9876543210''),
        current_step := lit ''phone_otp_verification'', progress_percentage := 15,
        updated_at := 4\<rparr>]"
  using demo_after_esign
  by (simp add: verify_phone_def Let_def demo_session_id demo_phone_def)

lemma step_index_values:
  "step_index (lit ''welcome'') = 0"
  "step_index (lit ''phone_otp_verification'') = 2"
  "step_index (lit ''completion'') = 10"
  by (simp_all add: step_index_def step_order_eq)

subsection \<open>The message a transition appends\<close>

lemma find_one_update_one_Some:
  assumes "find_one p (update_one p f xs) = Some y" and "\<And>x. p x \<Longrightarrow> p (f x)"
  shows "\<exists>x. find_one p xs = Some x \<and> y = f x"
  using assms(1)
proof (induction xs)
  case Nil
  then show ?case by simp
next
  case (Cons x xs)
  then show ?case using assms(2) by (cases "p x") auto
qed

lemma get_session_after_set_session:
  assumes "get_session sid (set_session sid upd db) = Inr s'"
    and "\<And>s. OnboardingSession.id (upd s) = OnboardingSession.id s"
  shows "\<exists>s. get_session sid db = Inr s \<and> s' = upd s"
proof -
  from assms(1)
  have "find_one (\<lambda>s. OnboardingSession.id s = sid)
          (update_one (\<lambda>s. OnboardingSession.id s = sid) upd (onboarding_sessions db)) = Some s'"
    by (simp add: get_session_Inr_iff)
  then have "\<exists>s. find_one (\<lambda>s. OnboardingSession.id s = sid) (onboarding_sessions db) = Some s
      \<and> s' = upd s"
    by (rule find_one_update_one_Some) (simp add: assms(2))
  then show ?thesis by (simp add: get_session_Inr_iff)
qed

lemma transition_effect:
  assumes "\<And>s. OnboardingSession.id (upd s) = OnboardingSession.id s"
    and "\<And>s. current_step (upd s) = step"
  shows "chat_messages (agent_says sid text t (set_session sid upd db)) =
           chat_messages db @ [\<lparr>ChatMessage.session_id = sid, ChatMessage.message = text,
                                 sender = lit ''agent'', timestamp = t\<rparr>]
       \<and> (\<forall>s. get_session sid (agent_says sid text t (set_session sid upd db)) = Inr s \<longrightarrow>
            current_step s = step)"
proof (intro conjI allI impI)
  show "chat_messages (agent_says sid text t (set_session sid upd db)) =
           chat_messages db @ [\<lparr>ChatMessage.session_id = sid, ChatMessage.message = text,
                                 sender = lit ''agent'', timestamp = t\<rparr>]"
    by simp
next
  fix s
  assume "get_session sid (agent_says sid text t (set_session sid upd db)) = Inr s"
  then have "get_session sid (set_session sid upd db) = Inr s" by simp
  then obtain s0 where "s = upd s0"
    using get_session_after_set_session [OF _ assms(1)] by blast
  then show "current_step s = step" by (simp add: assms(2))
qed

lemma prefix_not_dropped:
  "email_verified_prefix @ get_ai_response (lit ''pan_verification'')
     \<noteq> get_ai_response (lit ''pan_verification'')"
  by (simp add: email_verified_prefix_def)

subsection \<open>The chat history\<close>

lemma stored_messages_transit:
  "length (stored_messages (requested_session tr) (snd (transit tr db))) =
     length (stored_messages (requested_session tr) db)
       + (if success (fst (transit tr db)) then 1 else 0)"
proof (cases tr)
  case (VerifyBiometric rq r t1 t2)
  then show ?thesis using randint_bounds [of 85 98 r]
    by (simp add: stored_messages_def verify_biometric_def Let_def)
qed (simp_all add: stored_messages_def verify_phone_def verify_otp_def verify_email_def
       verify_kyc_document_def submit_additional_info_def complete_esign_def Let_def)

lemma transit_failure_unchanged:
  "success (fst (transit tr db)) \<or> snd (transit tr db) = db"
proof (cases tr)
  case (VerifyBiometric rq r t1 t2)
  then show ?thesis using randint_bounds [of 85 98 r]
    by (simp add: verify_biometric_def Let_def)
qed (simp_all add: verify_phone_def verify_otp_def verify_email_def
       verify_kyc_document_def submit_additional_info_def complete_esign_def Let_def)

lemma get_chat_history_sorted: "sorted (map timestamp (get_chat_history sid db))"
  unfolding get_chat_history_def take_map [symmetric]
  by (rule sorted_wrt_take) (rule sorted_sort_key)

lemma truncate_document:
  "ChatMessage.truncate
     \<lparr>ChatMessage.session_id = ChatMessage.session_id m,
      ChatMessage.message = ChatMessage.message m,
      sender = sender m, timestamp = timestamp m, object_id = i\<rparr> = (m :: ChatMessage)"
  by (cases m) (simp add: ChatMessage.truncate_def)

lemma truncate_documents: "map ChatMessage.truncate (documents coll) = coll"
proof -
  have "ChatMessage.truncate \<circ>
          (\<lambda>(i, m). \<lparr>ChatMessage.session_id = ChatMessage.session_id m,
                     ChatMessage.message = ChatMessage.message m,
                     sender = sender m, timestamp = timestamp m, object_id = i\<rparr>) = snd"
    by (rule ext) (simp add: split_def truncate_document)
  then have "map ChatMessage.truncate (documents coll) = map snd (enumerate 0 coll)"
    unfolding documents_def map_map by (rule arg_cong)
  also have "\<dots> = coll" by simp
  finally show ?thesis .
qed

lemma object_id_documents: "map object_id (documents coll) = [0..<length coll]"
proof -
  have "object_id \<circ>
          (\<lambda>(i, m). \<lparr>ChatMessage.session_id = ChatMessage.session_id m,
                     ChatMessage.message = ChatMessage.message m,
                     sender = sender m, timestamp = timestamp m, object_id = i\<rparr>) = fst"
    by (rule ext) (simp add: split_def)
  then have "map object_id (documents coll) = map fst (enumerate 0 coll)"
    unfolding documents_def map_map by (rule arg_cong)
  also have "\<dots> = [0..<length coll]" by simp
  finally show ?thesis .
qed

lemma session_id_truncate [simp]:
  "ChatMessage.session_id (ChatMessage.truncate d) = ChatMessage.session_id d"
  by (simp add: ChatMessage.truncate_def)

lemma stored_documents_truncate:
  "map ChatMessage.truncate (stored_documents sid db) = stored_messages sid db"
proof -
  have "map ChatMessage.truncate
     (filter (\<lambda>d. ChatMessage.session_id d = sid) (documents (chat_messages db))) =
     filter (\<lambda>m. ChatMessage.session_id m = sid)
       (map ChatMessage.truncate (documents (chat_messages db)))"
    by (simp add: filter_map comp_def)
  then show ?thesis
    by (simp add: truncate_documents stored_messages_def stored_documents_def)
qed

lemma get_chat_history_first_100:
  "\<exists>ys. mset ys = mset (stored_documents sid db)
        \<and> sorted (map timestamp ys)
        \<and> get_chat_history sid db = take 100 ys"
proof -
  let ?ds = "stored_documents sid db"
  have "mset (sort_key timestamp ?ds) = mset ?ds" by simp
  moreover have "sorted (map timestamp (sort_key timestamp ?ds))" by (rule sorted_sort_key)
  moreover have "get_chat_history sid db = take 100 (sort_key timestamp ?ds)"
    by (simp add: get_chat_history_def stored_documents_def)
  ultimately show ?thesis by blast
qed

lemma length_get_chat_history:
  "length (get_chat_history sid db) = min (length (stored_messages sid db)) 100"
proof -
  have "length (stored_messages sid db) = length (stored_documents sid db)"
    using stored_documents_truncate [of sid db, THEN arg_cong, of length] by simp
  then show ?thesis by (simp add: get_chat_history_def stored_documents_def)
qed

lemma chat_history_route_500:
  "stored_messages sid db \<noteq> [] \<Longrightarrow> chat_history_route sid db = InternalServerError"
proof -
  assume "stored_messages sid db \<noteq> []"
  then have "length (get_chat_history sid db) \<noteq> 0"
    by (simp add: length_get_chat_history)
  then show ?thesis by (simp add: chat_history_route_def split: list.splits)
qed

lemma chat_history_route_demo: "chat_history_route (lit ''s1'') demo_db = InternalServerError"
  by (rule chat_history_route_500) (simp add: stored_messages_def demo_db_messages)

section \<open>The claims\<close>

text \<open>
  C10. When \<^verbatim>\<open>chat\<close> is called with a session id that the store does not hold, it raises
  the 404 only after it has stored the caller's message: the call answers with the
  error, and the chat collection it leaves behind is the old one with that message
  appended, so the stored history of that id grows by one at every such call.
\<close>

theorem chat_unknown_session_persists_message:
  assumes "get_session (ChatMessage.session_id msg) db = Inl e"
  shows "chat msg t db =
           (Inl (HTTPException 404 (lit ''Session not found'')),
            db\<lparr>chat_messages := chat_messages db @ [msg]\<rparr>)
         \<and> length (filter (\<lambda>m. ChatMessage.session_id m = ChatMessage.session_id msg)
                     (chat_messages (snd (chat msg t db)))) =
           Suc (length (filter (\<lambda>m. ChatMessage.session_id m = ChatMessage.session_id msg)
                     (chat_messages db)))
         \<and> get_session (ChatMessage.session_id msg) (snd (chat msg t db)) = Inl e"
proof -
  from assms
  have "find_one (\<lambda>s. OnboardingSession.id s = ChatMessage.session_id msg)
          (onboarding_sessions db) = None"
    by (simp add: get_session_Inl_iff)
  then have c: "chat msg t db =
           (Inl (HTTPException 404 (lit ''Session not found'')),
            db\<lparr>chat_messages := chat_messages db @ [msg]\<rparr>)"
    unfolding chat_def Let_def insert_one_def by simp
  have "get_session (ChatMessage.session_id msg) (db\<lparr>chat_messages := chat_messages db @ [msg]\<rparr>)
          = get_session (ChatMessage.session_id msg) db"
    by (simp add: get_session_def)
  with assms c show ?thesis by simp
qed

theorem chat_unknown_session_persists_message_witness:
  "get_session (lit ''ghost'') empty_db = Inl (HTTPException 404 (lit ''Session not found''))
   \<and> chat \<lparr>ChatMessage.session_id = lit ''ghost'', ChatMessage.message = lit ''hello'',
            sender = lit ''user'', timestamp = 4\<rparr> 5 empty_db =
       (Inl (HTTPException 404 (lit ''Session not found'')),
        \<lparr>onboarding_sessions = [],
         chat_messages = [\<lparr>ChatMessage.session_id = lit ''ghost'',
                            ChatMessage.message = lit ''hello'',
                            sender = lit ''user'', timestamp = 4\<rparr>]\<rparr>)"
proof -
  have h: "get_session (ChatMessage.session_id
              \<lparr>ChatMessage.session_id = lit ''ghost'', ChatMessage.message = lit ''hello'',
               sender = lit ''user'', timestamp = 4\<rparr>) empty_db
           = Inl (HTTPException 404 (lit ''Session not found''))"
    by (simp add: get_session_def empty_db_def)
  from chat_unknown_session_persists_message [OF h, of 5] h
  show ?thesis by (simp add: empty_db_def)
qed

text \<open>
  C8. At every biometric submission the drawn match score lies in \<open>[85, 98]\<close>, and since
  the threshold is \<open>score \<ge> 85\<close> the call cannot fail: it answers \<open>success = True\<close> with the
  score in the message, and the session of the request is moved to \<open>additional_info\<close>
  at progress 80.
\<close>

theorem verify_biometric_never_fails:
  "85 \<le> randint 85 98 r \<and> randint 85 98 r \<le> 98
   \<and> fst (verify_biometric request r t_upd t_msg db) =
       \<lparr>success = True,
        Reply.message = lit ''Face verification successful! Match score: ''
           @ str_int (randint 85 98 r) @ lit ''%'',
        Reply.otp = None\<rparr>
   \<and> (\<forall>s. get_session (BiometricRequest.session_id request) db = Inr s \<longrightarrow>
          get_session (BiometricRequest.session_id request)
            (snd (verify_biometric request r t_upd t_msg db)) =
          Inr (s\<lparr>current_step := lit ''additional_info'', progress_percentage := 80,
                 updated_at := t_upd\<rparr>))"
proof -
  have b: "85 \<le> randint 85 98 r \<and> randint 85 98 r \<le> 98"
    by (rule randint_bounds) simp
  then show ?thesis
    by (simp add: verify_biometric_def Let_def get_session_set_session)
qed

theorem verify_biometric_never_fails_witness:
  "get_session (lit ''s1'') demo_db = Inr demo_session
   \<and> fst (verify_biometric \<lparr>BiometricRequest.session_id = lit ''s1'', face_image = lit ''img''\<rparr>
            7 2 3 demo_db) =
       \<lparr>success = True,
        Reply.message = lit ''Face verification successful! Match score: 92%'',
        Reply.otp = None\<rparr>
   \<and> get_session (lit ''s1'')
        (snd (verify_biometric \<lparr>BiometricRequest.session_id = lit ''s1'', face_image = lit ''img''\<rparr>
               7 2 3 demo_db)) =
       Inr (demo_session\<lparr>current_step := lit ''additional_info'', progress_percentage := 80,
                          updated_at := 2\<rparr>)"
proof -
  have score: "str_int (randint 85 98 7) = lit ''92''"
    by (simp add: randint_def str_int_def str_nat.simps lit_def)
  from verify_biometric_never_fails
         [of 7 "\<lparr>BiometricRequest.session_id = lit ''s1'', face_image = lit ''img''\<rparr>" 2 3 demo_db]
       get_session_demo score
  show ?thesis by (simp add: lit_def)
qed

text \<open>
  C7. A PAN submission whose PAN is absent or has a length other than 10 answers
  \<open>success = False\<close> and leaves the store as it is, whatever the random draw. A PAN of
  length 10 succeeds exactly when the draw does; then the session of the request is moved
  to \<open>kyc_document\<close> at progress 45, and when the draw fails the store is left as it is.
\<close>

theorem pan_length_gate:
  assumes "document_type request = lit ''pan''"
  shows "((\<forall>p. pan_number request = Some p \<longrightarrow> length p \<noteq> 10) \<longrightarrow>
            success (fst (verify_kyc_document request r t_upd t_msg db)) = False
            \<and> snd (verify_kyc_document request r t_upd t_msg db) = db)
       \<and> ((\<exists>p. pan_number request = Some p \<and> length p = 10) \<longrightarrow>
            (success (fst (verify_kyc_document request r t_upd t_msg db))
               \<longleftrightarrow> choice [True, True, True, False] r)
            \<and> (choice [True, True, True, False] r \<longrightarrow>
                 (\<forall>s. get_session (KYCDocumentRequest.session_id request) db = Inr s \<longrightarrow>
                    get_session (KYCDocumentRequest.session_id request)
                      (snd (verify_kyc_document request r t_upd t_msg db)) =
                    Inr (s\<lparr>current_step := lit ''kyc_document'', progress_percentage := 45,
                           updated_at := t_upd\<rparr>)))
            \<and> (\<not> choice [True, True, True, False] r \<longrightarrow>
                 snd (verify_kyc_document request r t_upd t_msg db) = db))"
proof (intro conjI impI)
  assume "\<forall>p. pan_number request = Some p \<longrightarrow> length p \<noteq> 10"
  then have g: "(case pan_number request of None \<Rightarrow> True | Some p \<Rightarrow> p = [] \<or> length p \<noteq> 10)"
    by (simp split: option.splits)
  show "success (fst (verify_kyc_document request r t_upd t_msg db)) = False"
    using assms g by (simp add: verify_kyc_document_def)
  show "snd (verify_kyc_document request r t_upd t_msg db) = db"
    using assms g by (simp add: verify_kyc_document_def)
next
  assume "\<exists>p. pan_number request = Some p \<and> length p = 10"
  then have g: "\<not> (case pan_number request of None \<Rightarrow> True | Some p \<Rightarrow> p = [] \<or> length p \<noteq> 10)"
    by auto
  show "success (fst (verify_kyc_document request r t_upd t_msg db))
               \<longleftrightarrow> choice [True, True, True, False] r"
    using assms g by (simp add: verify_kyc_document_def Let_def)
  show "\<forall>s. get_session (KYCDocumentRequest.session_id request) db = Inr s \<longrightarrow>
                    get_session (KYCDocumentRequest.session_id request)
                      (snd (verify_kyc_document request r t_upd t_msg db)) =
                    Inr (s\<lparr>current_step := lit ''kyc_document'', progress_percentage := 45,
                           updated_at := t_upd\<rparr>)"
    if "choice [True, True, True, False] r"
    using assms g that by (simp add: verify_kyc_document_def Let_def get_session_set_session)
  show "snd (verify_kyc_document request r t_upd t_msg db) = db"
    if "\<not> choice [True, True, True, False] r"
    using assms g that by (simp add: verify_kyc_document_def Let_def)
qed

theorem pan_length_gate_witness:
  "document_type (pan_request None) = lit ''pan''
   \<and> success (fst (verify_kyc_document (pan_request None) 0 2 3 demo_db)) = False
   \<and> snd (verify_kyc_document (pan_request None) 0 2 3 demo_db) = demo_db
   \<and> success (fst (verify_kyc_document (pan_request (Some (lit ''ABCDE''))) 0 2 3 demo_db)) = False
   \<and> snd (verify_kyc_document (pan_request (Some (lit ''ABCDE''))) 0 2 3 demo_db) = demo_db
   \<and> length (lit ''ABCDE1234F'') = 10
   \<and> choice [True, True, True, False] 0
   \<and> success (fst (verify_kyc_document (pan_request (Some (lit ''ABCDE1234F''))) 0 2 3 demo_db))
   \<and> get_session (lit ''s1'')
        (snd (verify_kyc_document (pan_request (Some (lit ''ABCDE1234F''))) 0 2 3 demo_db)) =
       Inr (demo_session\<lparr>current_step := lit ''kyc_document'', progress_percentage := 45,
                          updated_at := 2\<rparr>)
   \<and> \<not> choice [True, True, True, False] 3
   \<and> \<not> success (fst (verify_kyc_document (pan_request (Some (lit ''ABCDE1234F''))) 3 2 3 demo_db))
   \<and> snd (verify_kyc_document (pan_request (Some (lit ''ABCDE1234F''))) 3 2 3 demo_db) = demo_db"
proof -
  have d: "\<And>p. document_type (pan_request p) = lit ''pan''"
    and p: "\<And>p. pan_number (pan_request p) = p"
    and i: "\<And>p. KYCDocumentRequest.session_id (pan_request p) = lit ''s1''"
    by (simp_all add: pan_request_def)
  have c0: "choice [True, True, True, False] 0" and c3: "\<not> choice [True, True, True, False] 3"
    by (simp_all add: choice_def)
  from pan_length_gate [OF d, of None 0 2 3 demo_db]
       pan_length_gate [OF d, of "Some (lit ''ABCDE'')" 0 2 3 demo_db]
       pan_length_gate [OF d, of "Some (lit ''ABCDE1234F'')" 0 2 3 demo_db]
       pan_length_gate [OF d, of "Some (lit ''ABCDE1234F'')" 3 2 3 demo_db]
       get_session_demo c0 c3
  show ?thesis by (simp add: d p i)
qed

text \<open>
  C6. \<^verbatim>\<open>verify_otp\<close> succeeds exactly when the submitted code is the fixed one of its type,
  \<open>123456\<close> for phone and \<open>654321\<close> for email. On phone success the session of the request
  is moved to \<open>email_verification\<close> at progress 25, on email success to \<open>pan_verification\<close>
  at progress 35. Any call that does not succeed leaves the whole store unchanged, and so
  does any sequence of such calls.
\<close>

theorem verify_otp_gate:
  "(success (fst (verify_otp request t_upd t_msg db)) \<longleftrightarrow>
      (verification_type request = Some (lit ''phone'')
         \<and> VerificationRequest.otp request = Some (lit ''123456''))
    \<or> (verification_type request = Some (lit ''email'')
         \<and> VerificationRequest.otp request = Some (lit ''654321'')))
   \<and> (verification_type request = Some (lit ''phone'')
        \<and> VerificationRequest.otp request = Some (lit ''123456'') \<longrightarrow>
        (\<forall>s. get_session (VerificationRequest.session_id request) db = Inr s \<longrightarrow>
           get_session (VerificationRequest.session_id request)
             (snd (verify_otp request t_upd t_msg db)) =
           Inr (s\<lparr>current_step := lit ''email_verification'', progress_percentage := 25,
                  updated_at := t_upd\<rparr>)))
   \<and> (verification_type request = Some (lit ''email'')
        \<and> VerificationRequest.otp request = Some (lit ''654321'') \<longrightarrow>
        (\<forall>s. get_session (VerificationRequest.session_id request) db = Inr s \<longrightarrow>
           get_session (VerificationRequest.session_id request)
             (snd (verify_otp request t_upd t_msg db)) =
           Inr (s\<lparr>current_step := lit ''pan_verification'', progress_percentage := 35,
                  updated_at := t_upd\<rparr>)))
   \<and> (\<not> success (fst (verify_otp request t_upd t_msg db)) \<longrightarrow>
        snd (verify_otp request t_upd t_msg db) = db)
   \<and> (\<forall>cs. (\<forall>c \<in> set cs. \<exists>rq t1 t2. c = Transition (VerifyOtp rq t1 t2)
                 \<and> \<not> success (fst (verify_otp rq t1 t2 db))) \<longrightarrow> run cs db = db)"
proof (intro conjI impI allI)
  show "success (fst (verify_otp request t_upd t_msg db)) \<longleftrightarrow>
      (verification_type request = Some (lit ''phone'')
         \<and> VerificationRequest.otp request = Some (lit ''123456''))
    \<or> (verification_type request = Some (lit ''email'')
         \<and> VerificationRequest.otp request = Some (lit ''654321''))"
    by (rule verify_otp_success_iff)
next
  fix s
  assume "verification_type request = Some (lit ''phone'')
        \<and> VerificationRequest.otp request = Some (lit ''123456'')"
    and "get_session (VerificationRequest.session_id request) db = Inr s"
  then show "get_session (VerificationRequest.session_id request)
             (snd (verify_otp request t_upd t_msg db)) =
           Inr (s\<lparr>current_step := lit ''email_verification'', progress_percentage := 25,
                  updated_at := t_upd\<rparr>)"
    by (simp add: verify_otp_def Let_def get_session_set_session)
next
  fix s
  assume "verification_type request = Some (lit ''email'')
        \<and> VerificationRequest.otp request = Some (lit ''654321'')"
    and "get_session (VerificationRequest.session_id request) db = Inr s"
  then show "get_session (VerificationRequest.session_id request)
             (snd (verify_otp request t_upd t_msg db)) =
           Inr (s\<lparr>current_step := lit ''pan_verification'', progress_percentage := 35,
                  updated_at := t_upd\<rparr>)"
    by (simp add: verify_otp_def Let_def get_session_set_session)
next
  assume "\<not> success (fst (verify_otp request t_upd t_msg db))"
  then show "snd (verify_otp request t_upd t_msg db) = db"
    by (rule verify_otp_failure_unchanged)
next
  fix cs
  assume "\<forall>c \<in> set cs. \<exists>rq t1 t2. c = Transition (VerifyOtp rq t1 t2)
                 \<and> \<not> success (fst (verify_otp rq t1 t2 db))"
  then show "run cs db = db" by (rule verify_otp_retries)
qed

theorem verify_otp_gate_witness:
  "success (fst (verify_otp (otp_request ''phone'' ''123456'') 2 3 demo_db))
   \<and> get_session (lit ''s1'') (snd (verify_otp (otp_request ''phone'' ''123456'') 2 3 demo_db)) =
       Inr (demo_session\<lparr>current_step := lit ''email_verification'', progress_percentage := 25,
                          updated_at := 2\<rparr>)
   \<and> success (fst (verify_otp (otp_request ''email'' ''654321'') 2 3 demo_db))
   \<and> get_session (lit ''s1'') (snd (verify_otp (otp_request ''email'' ''654321'') 2 3 demo_db)) =
       Inr (demo_session\<lparr>current_step := lit ''pan_verification'', progress_percentage := 35,
                          updated_at := 2\<rparr>)
   \<and> \<not> success (fst (verify_otp (otp_request ''phone'' ''000000'') 2 3 demo_db))
   \<and> snd (verify_otp (otp_request ''phone'' ''000000'') 2 3 demo_db) = demo_db
   \<and> \<not> success (fst (verify_otp (otp_request ''phone'' ''654321'') 4 5 demo_db))
   \<and> run [Transition (VerifyOtp (otp_request ''phone'' ''000000'') 2 3),
           Transition (VerifyOtp (otp_request ''phone'' ''654321'') 4 5)] demo_db = demo_db"
proof -
  have k: "\<And>a b. verification_type (otp_request a b) = Some (lit a)"
    and c: "\<And>a b. VerificationRequest.otp (otp_request a b) = Some (lit b)"
    and i: "\<And>a b. VerificationRequest.session_id (otp_request a b) = lit ''s1''"
    by (simp_all add: otp_request_def)
  note g = verify_otp_gate [of _ _ _ demo_db]
  from g [of "otp_request ''phone'' ''123456''" 2 3]
       g [of "otp_request ''email'' ''654321''" 2 3]
       g [of "otp_request ''phone'' ''000000''" 2 3]
       g [of "otp_request ''phone'' ''654321''" 4 5]
       get_session_demo
  have a: "success (fst (verify_otp (otp_request ''phone'' ''123456'') 2 3 demo_db))"
    and b: "get_session (lit ''s1'') (snd (verify_otp (otp_request ''phone'' ''123456'') 2 3 demo_db)) =
       Inr (demo_session\<lparr>current_step := lit ''email_verification'', progress_percentage := 25,
                          updated_at := 2\<rparr>)"
    and a': "success (fst (verify_otp (otp_request ''email'' ''654321'') 2 3 demo_db))"
    and b': "get_session (lit ''s1'') (snd (verify_otp (otp_request ''email'' ''654321'') 2 3 demo_db)) =
       Inr (demo_session\<lparr>current_step := lit ''pan_verification'', progress_percentage := 35,
                          updated_at := 2\<rparr>)"
    and f1: "\<not> success (fst (verify_otp (otp_request ''phone'' ''000000'') 2 3 demo_db))"
    and u1: "snd (verify_otp (otp_request ''phone'' ''000000'') 2 3 demo_db) = demo_db"
    and f2: "\<not> success (fst (verify_otp (otp_request ''phone'' ''654321'') 4 5 demo_db))"
    by (simp_all add: k c i)
  from g [of "otp_request ''phone'' ''000000''" 2 3] f1 f2
  have "run [Transition (VerifyOtp (otp_request ''phone'' ''000000'') 2 3),
           Transition (VerifyOtp (otp_request ''phone'' ''654321'') 4 5)] demo_db = demo_db"
    by (auto simp del: run.simps)
  with a b a' b' f1 u1 f2 show ?thesis by simp
qed

text \<open>
  C3. The claim is that every operation given a session id that the store does not hold
  answers with the 404. \<^verbatim>\<open>get_session\<close> does, and the seven transition endpoints do not: on
  the empty store \<^verbatim>\<open>verify_phone\<close> answers \<open>success = True\<close> and stores an agent message for
  the unknown id, and each of the other six answers \<open>success = True\<close> as well.
\<close>

theorem unknown_session_reports_success:
  "get_session (lit ''ghost'') empty_db = Inl (HTTPException 404 (lit ''Session not found''))
   \<and> verify_phone ghost_verification 1 2 empty_db =
       (\<lparr>success = True, Reply.message = lit ''OTP sent successfully to your mobile'',
         Reply.otp = Some (lit ''123456'')\<rparr>,
        \<lparr>onboarding_sessions = [],
         chat_messages = [\<lparr>ChatMessage.session_id = lit ''ghost'',
                            ChatMessage.message = get_ai_response (lit ''phone_otp_verification''),
                            sender = lit ''agent'', timestamp = 2\<rparr>]\<rparr>)
   \<and> map (\<lambda>tr. success (fst (transit tr empty_db)))
        [VerifyPhone ghost_verification 1 2,
         VerifyOtp ghost_verification 1 2,
         VerifyEmail ghost_verification 1 2,
         VerifyKycDocument
           \<lparr>KYCDocumentRequest.session_id = lit ''ghost'', document_type = lit ''aadhaar'',
            pan_number = None, aadhaar_number = Some (lit ''123412341234''),
            document_data = None, document_file = None\<rparr> 0 1 2,
         VerifyBiometric \<lparr>BiometricRequest.session_id = lit ''ghost'', face_image = lit ''img''\<rparr> 0 1 2,
         SubmitAdditionalInfo
           \<lparr>AdditionalInfoRequest.session_id = lit ''ghost'', full_name = lit ''A B'',
            date_of_birth = lit ''2000-01-01'', address = lit ''X'', occupation = lit ''Y'',
            income_range = lit ''Z''\<rparr> 1 2,
         CompleteEsign \<lparr>ESignRequest.session_id = lit ''ghost'', signature_data = lit ''sig''\<rparr> 1 2]
      = [True, True, True, True, True, True, True]"
  by (simp add: get_session_def empty_db_def verify_phone_def verify_otp_def verify_email_def
      verify_kyc_document_def verify_biometric_def submit_additional_info_def
      complete_esign_def Let_def ghost_verification_def set_session_def agent_says_def
      insert_one_def choice_def randint_def)

text \<open>
  C9. Whatever a call writes into a stored session, the step and the progress it leaves
  there are a row of the table: \<open>welcome\<close> 0, \<open>phone_otp_verification\<close> 15,
  \<open>email_verification\<close> 25, \<open>email_otp_verification\<close> 30, \<open>pan_verification\<close> 35,
  \<open>kyc_document\<close> 45, \<open>face_verification\<close> 60, \<open>additional_info\<close> 80, \<open>esign\<close> 90,
  \<open>completion\<close> 100. After any call, every session of the store is either the one that was
  at its place before, or its progress is the table's value for its step.
\<close>

theorem progress_assigned_from_table:
  assumes "i < length (onboarding_sessions (serve c db))"
  shows "(i < length (onboarding_sessions db)
          \<and> onboarding_sessions (serve c db) ! i = onboarding_sessions db ! i)
       \<or> map_of spec_progress_table (current_step (onboarding_sessions (serve c db) ! i)) =
           Some (progress_percentage (onboarding_sessions (serve c db) ! i))"
  using serve_sessions [OF assms]
  by (auto simp add: rewritten_def on_table_map_of fresh_def spec_progress_table_def)

theorem progress_assigned_from_table_witness:
  "0 < length (onboarding_sessions (serve (Transition (VerifyPhone demo_phone 2 3)) demo_db))
   \<and> onboarding_sessions (serve (Transition (VerifyPhone demo_phone 2 3)) demo_db) ! 0
       \<noteq> onboarding_sessions demo_db ! 0
   \<and> current_step (onboarding_sessions (serve (Transition (VerifyPhone demo_phone 2 3)) demo_db) ! 0)
       = lit ''phone_otp_verification''
   \<and> map_of spec_progress_table (lit ''phone_otp_verification'') =
       Some (progress_percentage
         (onboarding_sessions (serve (Transition (VerifyPhone demo_phone 2 3)) demo_db) ! 0))"
proof -
  let ?db' = "serve (Transition (VerifyPhone demo_phone 2 3)) demo_db"
  have h: "0 < length (onboarding_sessions ?db')"
    unfolding demo_after_phone by simp
  have e: "current_step (onboarding_sessions ?db' ! 0) = lit ''phone_otp_verification''"
    by (simp add: demo_after_phone del: serve.simps)
  have n: "onboarding_sessions ?db' ! 0 \<noteq> onboarding_sessions demo_db ! 0"
  proof
    assume "onboarding_sessions ?db' ! 0 = onboarding_sessions demo_db ! 0"
    then have "current_step (onboarding_sessions ?db' ! 0)
        = current_step (onboarding_sessions demo_db ! 0)" by (rule arg_cong)
    then show False unfolding e by (simp add: demo_db_sessions demo_session_def)
  qed
  from progress_assigned_from_table [OF h] n
  have "map_of spec_progress_table (current_step (onboarding_sessions ?db' ! 0)) =
           Some (progress_percentage (onboarding_sessions ?db' ! 0))" by blast
  with h n e show ?thesis by (simp del: serve.simps)
qed

text \<open>
  C1 as stated fails: no endpoint looks at the step the session is at. After
  \<^verbatim>\<open>start_onboarding\<close> and \<^verbatim>\<open>complete_esign\<close> the session is at \<open>completion\<close> with progress
  100; a call of \<^verbatim>\<open>verify_phone\<close> then takes it back to \<open>phone_otp_verification\<close> with
  progress 15.
\<close>

theorem progress_lowered_counterexample:
  "onboarding_sessions
     (run [StartOnboarding (lit ''s1'') 1 1 1, Transition (CompleteEsign demo_esign 2 3)] empty_db) =
     [\<lparr>OnboardingSession.id = lit ''s1'', customer_phone = None, customer_email = None,
       current_step = lit ''completion'', progress_percentage = 100, created_at = 1,
       updated_at = 2, status = lit ''completed''\<rparr>]
   \<and> onboarding_sessions
     (run [StartOnboarding (lit ''s1'') 1 1 1, Transition (CompleteEsign demo_esign 2 3),
           Transition (VerifyPhone demo_phone 4 5)] empty_db) =
     [\<lparr>OnboardingSession.id = lit ''s1'', customer_phone = Some (lit ''9876543210''),
       customer_email = None,
       current_step = lit ''phone_otp_verification'', progress_percentage = 15, created_at = 1,
       updated_at = 4, status = lit ''completed''\<rparr>]
   \<and> step_index (lit ''phone_otp_verification'') < step_index (lit ''completion'')
   \<and> (15 :: int) < 100"
  unfolding run.simps serve_start_demo demo_after_esign demo_after_esign_phone
  by (simp add: step_index_values demo_session_def)

text \<open>
  C1, as amended. In every store that a sequence of calls reaches from the empty one, the
  progress of a session is the table's value for its step; a call keeps the session's place
  and id, and it lowers the progress only if it moves the step to an earlier one of the
  fixed order. So the progress does not decrease over calls that do not move the step
  backwards.
\<close>

theorem progress_follows_step_order:
  assumes "i < length (onboarding_sessions (run cs empty_db))"
  shows "i < length (onboarding_sessions (serve c (run cs empty_db)))
       \<and> OnboardingSession.id (onboarding_sessions (serve c (run cs empty_db)) ! i) =
           OnboardingSession.id (onboarding_sessions (run cs empty_db) ! i)
       \<and> map_of spec_progress_table (current_step (onboarding_sessions (run cs empty_db) ! i)) =
           Some (progress_percentage (onboarding_sessions (run cs empty_db) ! i))
       \<and> (step_index (current_step (onboarding_sessions (run cs empty_db) ! i))
            \<le> step_index (current_step (onboarding_sessions (serve c (run cs empty_db)) ! i)) \<longrightarrow>
          progress_percentage (onboarding_sessions (run cs empty_db) ! i)
            \<le> progress_percentage (onboarding_sessions (serve c (run cs empty_db)) ! i))"
proof -
  let ?db = "run cs empty_db"
  let ?s = "onboarding_sessions ?db ! i"
  let ?s' = "onboarding_sessions (serve c ?db) ! i"
  from assms have i': "i < length (onboarding_sessions (serve c ?db))"
    using length_serve [of ?db c] by simp
  from serve_sessions [OF i'] assms have r: "rewritten ?s ?s'" by auto
  from assms have "?s \<in> set (onboarding_sessions ?db)" by simp
  then have c: "consistent ?s" by (rule reachable_consistent)
  then have c': "consistent ?s'" using r by (rule rewritten_consistent)
  from c c' have t: "on_table ?s" "on_table ?s'" by (simp_all add: consistent_def)
  show ?thesis
    using i' rewritten_id [OF r] t(1) table_monotone [OF t]
    by (simp add: on_table_map_of)
qed

theorem progress_follows_step_order_witness:
  "0 < length (onboarding_sessions (run [StartOnboarding (lit ''s1'') 1 1 1] empty_db))
   \<and> step_index (current_step
        (onboarding_sessions (run [StartOnboarding (lit ''s1'') 1 1 1] empty_db) ! 0))
      \<le> step_index (current_step
        (onboarding_sessions (serve (Transition (VerifyPhone demo_phone 2 3))
           (run [StartOnboarding (lit ''s1'') 1 1 1] empty_db)) ! 0))
   \<and> progress_percentage
        (onboarding_sessions (run [StartOnboarding (lit ''s1'') 1 1 1] empty_db) ! 0)
      \<le> progress_percentage
        (onboarding_sessions (serve (Transition (VerifyPhone demo_phone 2 3))
           (run [StartOnboarding (lit ''s1'') 1 1 1] empty_db)) ! 0)"
proof -
  let ?cs = "[StartOnboarding (lit ''s1'') 1 1 1]"
  let ?c = "Transition (VerifyPhone demo_phone 2 3)"
  have h: "0 < length (onboarding_sessions (run ?cs empty_db))"
    unfolding run_start_demo by (simp add: demo_db_sessions)
  have le: "step_index (current_step (onboarding_sessions (run ?cs empty_db) ! 0))
      \<le> step_index (current_step (onboarding_sessions (serve ?c (run ?cs empty_db)) ! 0))"
    unfolding run_start_demo demo_after_phone
    by (simp add: demo_db_sessions demo_session_def step_index_values)
  from progress_follows_step_order [OF h, of ?c] le
  have "progress_percentage (onboarding_sessions (run ?cs empty_db) ! 0)
      \<le> progress_percentage (onboarding_sessions (serve ?c (run ?cs empty_db)) ! 0)"
    by blast
  with h le show ?thesis by blast
qed

text \<open>
  C4 as stated fails in the other direction: no call resets the status. After
  \<^verbatim>\<open>start_onboarding\<close>, \<^verbatim>\<open>complete_esign\<close> and \<^verbatim>\<open>verify_phone\<close> the session has status
  \<open>completed\<close> at step \<open>phone_otp_verification\<close>.
\<close>

theorem completed_off_completion_counterexample:
  "status (onboarding_sessions
     (run [StartOnboarding (lit ''s1'') 1 1 1, Transition (CompleteEsign demo_esign 2 3),
           Transition (VerifyPhone demo_phone 4 5)] empty_db) ! 0) = lit ''completed''
   \<and> current_step (onboarding_sessions
     (run [StartOnboarding (lit ''s1'') 1 1 1, Transition (CompleteEsign demo_esign 2 3),
           Transition (VerifyPhone demo_phone 4 5)] empty_db) ! 0) = lit ''phone_otp_verification''
   \<and> lit ''phone_otp_verification'' \<noteq> lit ''completion''"
  unfolding run.simps serve_start_demo demo_after_esign_phone
  by (simp add: demo_session_def)

text \<open>
  C4, as amended. In every store that a sequence of calls reaches from the empty one, a
  session at step \<open>completion\<close> has status \<open>completed\<close>, and a call that turns the status of
  a session into \<open>completed\<close> leaves that session at step \<open>completion\<close>.
\<close>

theorem completion_implies_completed:
  assumes "i < length (onboarding_sessions (run cs empty_db))"
  shows "(current_step (onboarding_sessions (run cs empty_db) ! i) = lit ''completion'' \<longrightarrow>
            status (onboarding_sessions (run cs empty_db) ! i) = lit ''completed'')
       \<and> (status (onboarding_sessions (run cs empty_db) ! i) \<noteq> lit ''completed''
          \<and> status (onboarding_sessions (serve c (run cs empty_db)) ! i) = lit ''completed'' \<longrightarrow>
          current_step (onboarding_sessions (serve c (run cs empty_db)) ! i) = lit ''completion'')"
proof -
  let ?db = "run cs empty_db"
  let ?s = "onboarding_sessions ?db ! i"
  let ?s' = "onboarding_sessions (serve c ?db) ! i"
  from assms have i': "i < length (onboarding_sessions (serve c ?db))"
    using length_serve [of ?db c] by simp
  from serve_sessions [OF i'] assms have r: "rewritten ?s ?s'" by auto
  from assms have "?s \<in> set (onboarding_sessions ?db)" by simp
  then have c: "consistent ?s" by (rule reachable_consistent)
  with r show ?thesis by (auto simp add: consistent_def rewritten_def)
qed

theorem completion_implies_completed_witness:
  "0 < length (onboarding_sessions (run [StartOnboarding (lit ''s1'') 1 1 1] empty_db))
   \<and> status (onboarding_sessions (run [StartOnboarding (lit ''s1'') 1 1 1] empty_db) ! 0)
       \<noteq> lit ''completed''
   \<and> status (onboarding_sessions (serve (Transition (CompleteEsign demo_esign 2 3))
         (run [StartOnboarding (lit ''s1'') 1 1 1] empty_db)) ! 0) = lit ''completed''
   \<and> current_step (onboarding_sessions (serve (Transition (CompleteEsign demo_esign 2 3))
         (run [StartOnboarding (lit ''s1'') 1 1 1] empty_db)) ! 0) = lit ''completion''
   \<and> 0 < length (onboarding_sessions
         (run [StartOnboarding (lit ''s1'') 1 1 1, Transition (CompleteEsign demo_esign 2 3)] empty_db))
   \<and> current_step (onboarding_sessions
         (run [StartOnboarding (lit ''s1'') 1 1 1, Transition (CompleteEsign demo_esign 2 3)] empty_db) ! 0)
       = lit ''completion''
   \<and> status (onboarding_sessions
         (run [StartOnboarding (lit ''s1'') 1 1 1, Transition (CompleteEsign demo_esign 2 3)] empty_db) ! 0)
       = lit ''completed''"
proof -
  let ?cs = "[StartOnboarding (lit ''s1'') 1 1 1]"
  let ?c = "Transition (CompleteEsign demo_esign 2 3)"
  let ?cs2 = "[StartOnboarding (lit ''s1'') 1 1 1, Transition (CompleteEsign demo_esign 2 3)]"
  have r2: "run ?cs2 empty_db = serve ?c (run ?cs empty_db)" unfolding run.simps ..
  have h: "0 < length (onboarding_sessions (run ?cs empty_db))"
    unfolding run_start_demo by (simp add: demo_db_sessions)
  have h2: "0 < length (onboarding_sessions (run ?cs2 empty_db))"
    unfolding r2 run_start_demo demo_after_esign by simp
  have a: "status (onboarding_sessions (run ?cs empty_db) ! 0) \<noteq> lit ''completed''"
    unfolding run_start_demo by (simp add: demo_db_sessions demo_session_def)
  have b: "status (onboarding_sessions (serve ?c (run ?cs empty_db)) ! 0) = lit ''completed''"
    unfolding run_start_demo demo_after_esign by simp
  from completion_implies_completed [OF h, of ?c] a b
  have c: "current_step (onboarding_sessions (serve ?c (run ?cs empty_db)) ! 0) = lit ''completion''"
    by blast
  then have c2: "current_step (onboarding_sessions (run ?cs2 empty_db) ! 0) = lit ''completion''"
    unfolding r2 .
  from completion_implies_completed [OF h2] c2
  have d: "status (onboarding_sessions (run ?cs2 empty_db) ! 0) = lit ''completed''"
    by blast
  from h a b c h2 c2 d show ?thesis by blast
qed

text \<open>
  C2 as stated fails at the call it singles out: when the email code is right,
  \<^verbatim>\<open>verify_otp\<close> moves the session to \<open>pan_verification\<close> and stores a message whose body is
  a confirmation sentence followed by the canned prompt of \<open>pan_verification\<close>, which is not
  the canned prompt itself.
\<close>

theorem email_otp_prompt_counterexample:
  "success (fst (verify_otp (otp_request ''email'' ''654321'') 2 3 demo_db))
   \<and> get_session (lit ''s1'') (snd (verify_otp (otp_request ''email'' ''654321'') 2 3 demo_db)) =
       Inr (demo_session\<lparr>current_step := lit ''pan_verification'', progress_percentage := 35,
                          updated_at := 2\<rparr>)
   \<and> chat_messages (snd (verify_otp (otp_request ''email'' ''654321'') 2 3 demo_db)) =
       chat_messages demo_db @
         [\<lparr>ChatMessage.session_id = lit ''s1'',
           ChatMessage.message =
             email_verified_prefix @ get_ai_response (lit ''pan_verification''),
           sender = lit ''agent'', timestamp = 3\<rparr>]
   \<and> email_verified_prefix @ get_ai_response (lit ''pan_verification'')
       \<noteq> get_ai_response (lit ''pan_verification'')"
  using get_session_demo prefix_not_dropped
  by (simp add: verify_otp_def otp_request_def Let_def get_session_set_session)

text \<open>
  C2, as amended. Every successful call of a transition endpoint appends exactly one
  message to the chat collection; its sender is the agent, its session id is the one of
  the request, and its body is the canned prompt of the step the call moves the session
  to, except that the successful email-code call of \<^verbatim>\<open>verify_otp\<close> puts the fixed
  confirmation sentence before the canned prompt.
\<close>

theorem successful_transition_appends_one_agent_message:
  assumes "success (fst (transit tr db))"
  shows "\<exists>step t.
           chat_messages (snd (transit tr db)) =
             chat_messages db @
               [\<lparr>ChatMessage.session_id = requested_session tr,
                 ChatMessage.message =
                   (if email_otp_call tr then email_verified_prefix @ get_ai_response step
                    else get_ai_response step),
                 sender = lit ''agent'', timestamp = t\<rparr>]
           \<and> (\<forall>s. get_session (requested_session tr) (snd (transit tr db)) = Inr s \<longrightarrow>
                current_step s = step)"
proof (cases tr)
  case (VerifyPhone rq t1 t2)
  show ?thesis
    apply (rule exI [of _ "lit ''phone_otp_verification''"], rule exI [of _ t2])
    unfolding VerifyPhone transit.simps requested_session.simps email_otp_call.simps
      verify_phone_def Let_def snd_conv if_False
    by (rule transition_effect) simp_all
next
  case (VerifyOtp rq t1 t2)
  from assms consider
      (phone) "verification_type rq = Some (lit ''phone'')"
        "VerificationRequest.otp rq = Some (lit ''123456'')"
    | (email) "verification_type rq = Some (lit ''email'')"
        "VerificationRequest.otp rq = Some (lit ''654321'')"
    unfolding VerifyOtp transit.simps verify_otp_success_iff by blast
  then show ?thesis
  proof cases
    case phone
    then have e: "verify_otp rq t1 t2 db =
       (\<lparr>success = True, Reply.message = lit ''Phone verified successfully!'', Reply.otp = None\<rparr>,
        agent_says (VerificationRequest.session_id rq) (get_ai_response (lit ''email_verification'')) t2
          (set_session (VerificationRequest.session_id rq)
             (\<lambda>s. s\<lparr>current_step := lit ''email_verification'', progress_percentage := 25,
                     updated_at := t1\<rparr>) db))"
      by (simp add: verify_otp_def Let_def)
    have n: "\<not> email_otp_call (VerifyOtp rq t1 t2)" using phone by simp
    show ?thesis
      apply (rule exI [of _ "lit ''email_verification''"], rule exI [of _ t2])
      unfolding VerifyOtp transit.simps requested_session.simps e snd_conv
      using n by (simp only: if_False) (rule transition_effect, simp_all)
  next
    case email
    then have e: "verify_otp rq t1 t2 db =
       (\<lparr>success = True,
         Reply.message = lit ''Email verified successfully! Confirmation sent to your email.'',
         Reply.otp = None\<rparr>,
        agent_says (VerificationRequest.session_id rq)
          (email_verified_prefix @ get_ai_response (lit ''pan_verification'')) t2
          (set_session (VerificationRequest.session_id rq)
             (\<lambda>s. s\<lparr>current_step := lit ''pan_verification'', progress_percentage := 35,
                     updated_at := t1\<rparr>) db))"
      by (simp add: verify_otp_def Let_def)
    have n: "email_otp_call (VerifyOtp rq t1 t2)" using email by simp
    show ?thesis
      apply (rule exI [of _ "lit ''pan_verification''"], rule exI [of _ t2])
      unfolding VerifyOtp transit.simps requested_session.simps e snd_conv
      using n by (simp only: if_True) (rule transition_effect, simp_all)
  qed
next
  case (VerifyEmail rq t1 t2)
  show ?thesis
    apply (rule exI [of _ "lit ''email_otp_verification''"], rule exI [of _ t2])
    unfolding VerifyEmail transit.simps requested_session.simps email_otp_call.simps
      verify_email_def Let_def snd_conv if_False
    by (rule transition_effect) simp_all
next
  case (VerifyKycDocument rq r t1 t2)
  from assms consider
      (pan) "snd (verify_kyc_document rq r t1 t2 db) =
        agent_says (KYCDocumentRequest.session_id rq) (get_ai_response (lit ''kyc_document'')) t2
          (set_session (KYCDocumentRequest.session_id rq)
             (\<lambda>s. s\<lparr>current_step := lit ''kyc_document'', progress_percentage := 45,
                     updated_at := t1\<rparr>) db)"
    | (other) "snd (verify_kyc_document rq r t1 t2 db) =
        agent_says (KYCDocumentRequest.session_id rq) (get_ai_response (lit ''face_verification'')) t2
          (set_session (KYCDocumentRequest.session_id rq)
             (\<lambda>s. s\<lparr>current_step := lit ''face_verification'', progress_percentage := 60,
                     updated_at := t1\<rparr>) db)"
    unfolding VerifyKycDocument transit.simps
    by (auto simp add: verify_kyc_document_def Let_def split: if_splits)
  then show ?thesis
  proof cases
    case pan
    show ?thesis
      apply (rule exI [of _ "lit ''kyc_document''"], rule exI [of _ t2])
      unfolding VerifyKycDocument transit.simps requested_session.simps email_otp_call.simps
        pan if_False
      by (rule transition_effect) simp_all
  next
    case other
    show ?thesis
      apply (rule exI [of _ "lit ''face_verification''"], rule exI [of _ t2])
      unfolding VerifyKycDocument transit.simps requested_session.simps email_otp_call.simps
        other if_False
      by (rule transition_effect) simp_all
  qed
next
  case (VerifyBiometric rq r t1 t2)
  have e: "snd (verify_biometric rq r t1 t2 db) =
        agent_says (BiometricRequest.session_id rq) (get_ai_response (lit ''additional_info'')) t2
          (set_session (BiometricRequest.session_id rq)
             (\<lambda>s. s\<lparr>current_step := lit ''additional_info'', progress_percentage := 80,
                     updated_at := t1\<rparr>) db)"
    using randint_bounds [of 85 98 r] by (simp add: verify_biometric_def Let_def)
  show ?thesis
    apply (rule exI [of _ "lit ''additional_info''"], rule exI [of _ t2])
    unfolding VerifyBiometric transit.simps requested_session.simps email_otp_call.simps
      e if_False
    by (rule transition_effect) simp_all
next
  case (SubmitAdditionalInfo rq t1 t2)
  show ?thesis
    apply (rule exI [of _ "lit ''esign''"], rule exI [of _ t2])
    unfolding SubmitAdditionalInfo transit.simps requested_session.simps email_otp_call.simps
      submit_additional_info_def Let_def snd_conv if_False
    by (rule transition_effect) simp_all
next
  case (CompleteEsign rq t1 t2)
  show ?thesis
    apply (rule exI [of _ "lit ''completion''"], rule exI [of _ t2])
    unfolding CompleteEsign transit.simps requested_session.simps email_otp_call.simps
      complete_esign_def Let_def snd_conv if_False
    by (rule transition_effect) simp_all
qed

theorem successful_transition_appends_one_agent_message_witness:
  "success (fst (transit (VerifyPhone demo_phone 2 3) demo_db))
   \<and> length (chat_messages (snd (transit (VerifyPhone demo_phone 2 3) demo_db))) = 2
   \<and> sender (last (chat_messages (snd (transit (VerifyPhone demo_phone 2 3) demo_db))))
       = lit ''agent''
   \<and> ChatMessage.message (last (chat_messages (snd (transit (VerifyPhone demo_phone 2 3) demo_db))))
       = get_ai_response (lit ''phone_otp_verification'')"
proof -
  let ?tr = "VerifyPhone demo_phone 2 3"
  have h: "success (fst (transit ?tr demo_db))"
    by (simp add: verify_phone_def Let_def)
  have r: "requested_session ?tr = lit ''s1''" "\<not> email_otp_call ?tr"
    by (simp_all add: demo_phone_def)
  have "onboarding_sessions (snd (transit ?tr demo_db)) =
     [demo_session\<lparr>customer_phone := Some (lit ''9876543210''),
        current_step := lit ''phone_otp_verification'', progress_percentage := 15,
        updated_at := 2\<rparr>]"
    using demo_after_phone unfolding serve.simps .
  then have g: "get_session (lit ''s1'') (snd (transit ?tr demo_db)) =
     Inr (demo_session\<lparr>customer_phone := Some (lit ''9876543210''),
        current_step := lit ''phone_otp_verification'', progress_percentage := 15,
        updated_at := 2\<rparr>)"
    by (simp add: get_session_def demo_session_id del: transit.simps)
  from successful_transition_appends_one_agent_message [OF h]
  obtain step t where m: "chat_messages (snd (transit ?tr demo_db)) =
             chat_messages demo_db @
               [\<lparr>ChatMessage.session_id = requested_session ?tr,
                 ChatMessage.message =
                   (if email_otp_call ?tr then email_verified_prefix @ get_ai_response step
                    else get_ai_response step),
                 sender = lit ''agent'', timestamp = t\<rparr>]"
    and s: "\<forall>s. get_session (requested_session ?tr) (snd (transit ?tr demo_db)) = Inr s \<longrightarrow>
                current_step s = step"
    by blast
  from s g have "step = lit ''phone_otp_verification''" unfolding r(1) by auto
  with m r(2) have m': "chat_messages (snd (transit ?tr demo_db)) =
             chat_messages demo_db @
               [\<lparr>ChatMessage.session_id = requested_session ?tr,
                 ChatMessage.message = get_ai_response (lit ''phone_otp_verification''),
                 sender = lit ''agent'', timestamp = t\<rparr>]"
    by (simp only: if_False)
  show ?thesis using h unfolding m' by (simp add: demo_db_messages del: transit.simps)
qed

text \<open>
  C5 as stated fails on the count: a successful transition call stores one message, the
  agent's, and not two. After \<^verbatim>\<open>start_onboarding\<close> the session has one stored message, and
  after a successful \<^verbatim>\<open>verify_phone\<close> it has two.
\<close>

theorem chat_history_grows_by_two_counterexample:
  "success (fst (transit (VerifyPhone demo_phone 2 3) demo_db))
   \<and> stored_messages (lit ''s1'') demo_db =
       [\<lparr>ChatMessage.session_id = lit ''s1'', ChatMessage.message = get_ai_response (lit ''welcome''),
         sender = lit ''agent'', timestamp = 1\<rparr>]
   \<and> stored_messages (lit ''s1'') (snd (transit (VerifyPhone demo_phone 2 3) demo_db)) =
       [\<lparr>ChatMessage.session_id = lit ''s1'', ChatMessage.message = get_ai_response (lit ''welcome''),
         sender = lit ''agent'', timestamp = 1\<rparr>,
        \<lparr>ChatMessage.session_id = lit ''s1'',
         ChatMessage.message = get_ai_response (lit ''phone_otp_verification''),
         sender = lit ''agent'', timestamp = 3\<rparr>]
   \<and> length (stored_messages (lit ''s1'') (snd (transit (VerifyPhone demo_phone 2 3) demo_db)))
       \<noteq> length (stored_messages (lit ''s1'') demo_db) + 2"
  by (simp add: stored_messages_def verify_phone_def Let_def demo_db_messages demo_phone_def)

text \<open>
  C5, as amended. The list that the handler \<^verbatim>\<open>get_chat_history\<close> selects is the first 100 of
  the session's stored documents put in non-decreasing order of timestamps: the stored
  messages of the session, each with the \<^verbatim>\<open>_id\<close> of its place in the collection. A call of a
  transition endpoint makes the number of stored messages of the session it names grow by
  exactly one when it succeeds and by zero when it fails; a failed call leaves the whole
  store unchanged. What the route answers from the selected list is not part of the
  statement.
\<close>

theorem chat_history_sorted_and_grows_by_one:
  "sorted (map timestamp (get_chat_history sid db))
   \<and> length (get_chat_history sid db) = min (length (stored_messages sid db)) 100
   \<and> (\<exists>ys. mset ys = mset (stored_documents sid db)
          \<and> sorted (map timestamp ys)
          \<and> get_chat_history sid db = take 100 ys)
   \<and> map ChatMessage.truncate (stored_documents sid db) = stored_messages sid db
   \<and> map object_id (documents (chat_messages db)) = [0..<length (chat_messages db)]
   \<and> length (stored_messages (requested_session tr) (snd (transit tr db))) =
       length (stored_messages (requested_session tr) db)
         + (if success (fst (transit tr db)) then 1 else 0)
   \<and> (success (fst (transit tr db)) \<or> snd (transit tr db) = db)"
  using get_chat_history_sorted [of sid db] length_get_chat_history [of sid db]
    get_chat_history_first_100 [of sid db] stored_documents_truncate [of sid db]
    object_id_documents [of "chat_messages db"] stored_messages_transit [of tr db]
    transit_failure_unchanged [of tr db]
  by (intro conjI)

theorem chat_history_sorted_and_grows_by_one_witness:
  "\<not> success (fst (transit (VerifyOtp (otp_request ''phone'' ''000000'') 2 3) demo_db))
   \<and> snd (transit (VerifyOtp (otp_request ''phone'' ''000000'') 2 3) demo_db) = demo_db
   \<and> success (fst (transit (VerifyPhone demo_phone 2 3) demo_db))
   \<and> length (stored_messages (lit ''s1'') (snd (transit (VerifyPhone demo_phone 2 3) demo_db))) = 2
   \<and> length (get_chat_history (lit ''s1'') demo_db) = 1"
proof -
  have f: "\<not> success (fst (transit (VerifyOtp (otp_request ''phone'' ''000000'') 2 3) demo_db))"
    by (simp add: verify_otp_success_iff otp_request_def)
  have h: "success (fst (transit (VerifyPhone demo_phone 2 3) demo_db))"
    by (simp add: verify_phone_def Let_def)
  have r: "requested_session (VerifyPhone demo_phone 2 3) = lit ''s1''"
    by (simp add: demo_phone_def)
  have n: "length (stored_messages (lit ''s1'') demo_db) = 1"
    by (simp add: stored_messages_def demo_db_messages)
  from chat_history_sorted_and_grows_by_one [of _ demo_db "VerifyOtp (otp_request ''phone'' ''000000'') 2 3"] f
  have u: "snd (transit (VerifyOtp (otp_request ''phone'' ''000000'') 2 3) demo_db) = demo_db"
    by blast
  from chat_history_sorted_and_grows_by_one [of _ demo_db "VerifyPhone demo_phone 2 3"] h
  have "length (stored_messages (requested_session (VerifyPhone demo_phone 2 3))
           (snd (transit (VerifyPhone demo_phone 2 3) demo_db))) =
        length (stored_messages (requested_session (VerifyPhone demo_phone 2 3)) demo_db) + 1"
    by (simp del: transit.simps requested_session.simps)
  then have "length (stored_messages (lit ''s1'') (snd (transit (VerifyPhone demo_phone 2 3) demo_db))) = 2"
    unfolding r n by simp
  moreover
  from chat_history_sorted_and_grows_by_one [of "lit ''s1''" demo_db "VerifyPhone demo_phone 2 3"]
  have "length (get_chat_history (lit ''s1'') demo_db)
      = min (length (stored_messages (lit ''s1'') demo_db)) 100"
    by (rule conjunct2 [THEN conjunct1])
  then have "length (get_chat_history (lit ''s1'') demo_db) = 1"
    unfolding n by simp
  ultimately show ?thesis using f u h by blast
qed

end
